theory Spec2Isabelle
  imports Main "HOL-Library.Word"
begin

section \<open>Errors, outcomes and the SDK's data\<close>

text \<open>
  The controller of \<^verbatim>\<open>refresh.go\<close> starts a rolling instance refresh on an Auto Scaling
  Group and polls it until it reaches a terminal status or a timeout elapses. Its three
  methods are embedded below as state-passing functions over a \<open>world\<close> that holds
  everything outside the controller: the monotonic clock, the history of observable
  effects (remote calls, callback invocations, clock readings, sleeps) and the state the
  caller's callback closes over.

  A \<^verbatim>\<open>time.Duration\<close> is a number of nanoseconds. No arithmetic is done on durations
  here except the subtraction of two clock readings, so they are unbounded integers.
\<close>

type_synonym Duration = int

text \<open>
  A Go \<^verbatim>\<open>error\<close> is either a value made by the remote client, or the result of
  \<^verbatim>\<open>fmt.Errorf(format, args...)\<close>, kept as the format string with its arguments:
  \<open>FloatSeconds d\<close> is the \<^verbatim>\<open>float64\<close> given by \<^verbatim>\<open>d.Seconds()\<close>, \<open>Str s\<close> a string
  and \<open>Wrapped e\<close> the error passed to a \<^verbatim>\<open>%w\<close> verb.
\<close>

datatype error = RemoteError string | Errorf string "fmt_arg list"
  and fmt_arg = FloatSeconds Duration | Str string | Wrapped error

text \<open>A call either returns its results or panics (a nil pointer is dereferenced).\<close>

datatype 'a go_result = Panic | Return 'a

text \<open>
  The types of the AWS SDK, with the fields this program reads or writes. A Go pointer
  field is an \<open>option\<close> (\<open>None\<close> is nil), \<^verbatim>\<open>int32\<close> is \<open>32 word\<close>, and Go's \<^verbatim>\<open>int\<close>
  is \<open>64 word\<close> (its width on 64-bit platforms). \<^verbatim>\<open>InstanceRefreshStatus\<close> and
  \<^verbatim>\<open>RefreshStrategy\<close> are string types in the SDK.
\<close>

record InstanceRefresh =
  InstanceRefreshId :: "string option"
  Status :: string
  PercentageComplete :: "32 word option"

datatype RefreshStrategy = RefreshStrategyRolling | RefreshStrategyOther string

record RefreshPreferences =
  MinHealthyPercentage :: "32 word option"
  MaxHealthyPercentage :: "32 word option"
  InstanceWarmup :: "32 word option"
  SkipMatching :: "bool option"

record StartInstanceRefreshInput =
  AutoScalingGroupName :: "string option"
  Strategy :: RefreshStrategy
  Preferences :: "RefreshPreferences option"

record StartInstanceRefreshOutput =
  InstanceRefreshId :: "string option"

record DescribeInstanceRefreshesInput =
  AutoScalingGroupName :: "string option"
  InstanceRefreshIds :: "string list"

record DescribeInstanceRefreshesOutput =
  InstanceRefreshes :: "InstanceRefresh list"

section \<open>The types of refresh.go\<close>

record RefreshOptions =
  MinHealthyPercentage :: "64 word"
  MaxHealthyPercentage :: "32 word option"
  InstanceWarmup :: "32 word option"
  SkipMatching :: bool

record StartResult =
  InstanceRefreshId :: string
  AutoScalingGroupName :: string

text \<open>
  Everything the controller does to its surroundings is recorded, in order, as an event.
  A remote call is recorded with the request sent and the pair \<^verbatim>\<open>(out, err)\<close> received.
\<close>

datatype event =
    StartInstanceRefreshCall StartInstanceRefreshInput
      "StartInstanceRefreshOutput option" "error option"
  | DescribeInstanceRefreshesCall DescribeInstanceRefreshesInput
      "DescribeInstanceRefreshesOutput option" "error option"
  | CallbackCall InstanceRefresh
  | ClockRead nat
  | SleepCall Duration

text \<open>
  \<^verbatim>\<open>AutoScalingAPI\<close> is the interface with the two remote operations. An implementation
  may answer differently from call to call (the tests' mocks count their calls), so each
  operation takes the history so far next to its request, and returns Go's pair
  \<^verbatim>\<open>(out, err)\<close>, either of which may be nil. The context argument is only handed
  on to the client and is left out.
\<close>

record AutoScalingAPI =
  StartInstanceRefresh :: "event list \<Rightarrow> StartInstanceRefreshInput
     \<Rightarrow> StartInstanceRefreshOutput option \<times> error option"
  DescribeInstanceRefreshes :: "event list \<Rightarrow> DescribeInstanceRefreshesInput
     \<Rightarrow> DescribeInstanceRefreshesOutput option \<times> error option"

text \<open>
  \<^verbatim>\<open>ASGRefresher\<close> holds the client. Its injected \<^verbatim>\<open>sleep\<close> is recorded as the event
  \<open>SleepCall\<close>; the time that passes while it sleeps is part of the clock below.
\<close>

record ASGRefresher =
  client :: AutoScalingAPI

text \<open>
  The world: \<open>mono\<close> is the last reading of the monotonic clock in nanoseconds, and
  \<open>tick\<close> says how many nanoseconds pass until the next reading, given the history.
  Go's \<^verbatim>\<open>time.Now\<close> carries a monotonic reading and \<^verbatim>\<open>time.Since\<close> subtracts
  monotonic readings, so the clock never runs backwards: \<open>tick\<close> yields a natural number.
  \<open>caller\<close> is the state that the caller's callback closes over.
\<close>

record 'c world =
  mono :: nat
  tick :: "event list \<Rightarrow> nat"
  trace :: "event list"
  caller :: 'c

definition emit :: "event \<Rightarrow> 'c world \<Rightarrow> 'c world" where
  "emit e w = w\<lparr>trace := trace w @ [e]\<rparr>"

definition time_Now :: "'c world \<Rightarrow> nat \<times> 'c world" where
  "time_Now w =
     (let t = mono w + tick w (trace w) in (t, emit (ClockRead t) (w\<lparr>mono := t\<rparr>)))"

definition time_Since :: "nat \<Rightarrow> 'c world \<Rightarrow> Duration \<times> 'c world" where
  "time_Since start w = (case time_Now w of (t, w') \<Rightarrow> (int t - int start, w'))"

definition call_sleep :: "Duration \<Rightarrow> 'c world \<Rightarrow> 'c world" where
  "call_sleep d w = emit (SleepCall d) w"

text \<open>
  The callback is a \<^verbatim>\<open>func(*types.InstanceRefresh)\<close>: it is handed a pointer to the
  snapshot, so it may write to the snapshot as well as to the state it closes over.
  A callback is therefore a function that takes the snapshot and the caller's state and
  gives the snapshot as it leaves it and the caller's new state. The event records the
  snapshot as it was handed over.
\<close>

definition call_statusCallback ::
  "(InstanceRefresh \<Rightarrow> 'c \<Rightarrow> InstanceRefresh \<times> 'c) \<Rightarrow> InstanceRefresh \<Rightarrow> 'c world
     \<Rightarrow> InstanceRefresh \<times> 'c world" where
  "call_statusCallback f s w =
     (case f s (caller w) of
        (s', c') \<Rightarrow> (s', emit (CallbackCall s) (w\<lparr>caller := c'\<rparr>)))"

definition call_StartInstanceRefresh ::
  "ASGRefresher \<Rightarrow> StartInstanceRefreshInput \<Rightarrow> 'c world
     \<Rightarrow> (StartInstanceRefreshOutput option \<times> error option) \<times> 'c world" where
  "call_StartInstanceRefresh r params w =
     (case StartInstanceRefresh (client r) (trace w) params of
        (out, err) \<Rightarrow> ((out, err), emit (StartInstanceRefreshCall params out err) w))"

definition call_DescribeInstanceRefreshes ::
  "ASGRefresher \<Rightarrow> DescribeInstanceRefreshesInput \<Rightarrow> 'c world
     \<Rightarrow> (DescribeInstanceRefreshesOutput option \<times> error option) \<times> 'c world" where
  "call_DescribeInstanceRefreshes r params w =
     (case DescribeInstanceRefreshes (client r) (trace w) params of
        (out, err) \<Rightarrow> ((out, err), emit (DescribeInstanceRefreshesCall params out err) w))"

text \<open>\<^verbatim>\<open>aws.ToString\<close>: the string a pointer points to, or the empty string for nil.\<close>

definition ToString :: "string option \<Rightarrow> string" where
  "ToString p = (case p of None \<Rightarrow> [] | Some s \<Rightarrow> s)"

section \<open>terminalStates\<close>

definition terminalStates :: "string \<rightharpoonup> bool" where
  "terminalStates =
     [''Successful'' \<mapsto> True,
      ''Failed'' \<mapsto> True,
      ''Cancelled'' \<mapsto> True,
      ''RollbackSuccessful'' \<mapsto> True,
      ''RollbackFailed'' \<mapsto> True]"

text \<open>Indexing a Go \<^verbatim>\<open>map[string]bool\<close>: a missing key gives \<^verbatim>\<open>false\<close>.\<close>

definition map_index :: "(string \<rightharpoonup> bool) \<Rightarrow> string \<Rightarrow> bool" where
  "map_index m k = (case m k of None \<Rightarrow> False | Some b \<Rightarrow> b)"

section \<open>StartRefresh\<close>

definition StartRefresh ::
  "ASGRefresher \<Rightarrow> string \<Rightarrow> RefreshOptions \<Rightarrow> 'c world
     \<Rightarrow> (StartResult option \<times> error option) go_result \<times> 'c world" where
  "StartRefresh r asgName opts w =
     (let prefs0 = \<lparr>RefreshPreferences.MinHealthyPercentage =
                       Some (ucast (RefreshOptions.MinHealthyPercentage opts)),
                    RefreshPreferences.MaxHealthyPercentage = None,
                    RefreshPreferences.InstanceWarmup = None,
                    RefreshPreferences.SkipMatching =
                       Some (RefreshOptions.SkipMatching opts)\<rparr>;
          prefs1 = (if RefreshOptions.InstanceWarmup opts \<noteq> None
                    then prefs0\<lparr>RefreshPreferences.InstanceWarmup :=
                                  RefreshOptions.InstanceWarmup opts\<rparr>
                    else prefs0);
          prefs = (if RefreshOptions.MaxHealthyPercentage opts \<noteq> None
                   then prefs1\<lparr>RefreshPreferences.MaxHealthyPercentage :=
                                 RefreshOptions.MaxHealthyPercentage opts\<rparr>
                   else prefs1)
      in case call_StartInstanceRefresh r
                \<lparr>StartInstanceRefreshInput.AutoScalingGroupName = Some asgName,
                 Strategy = RefreshStrategyRolling,
                 Preferences = Some prefs\<rparr> w of
           ((out, err), w') \<Rightarrow>
             (case err of
                Some e \<Rightarrow>
                  (Return (None, Some (Errorf ''start instance refresh: %w'' [Wrapped e])), w')
              | None \<Rightarrow>
                  (case out of
                     None \<Rightarrow> (Panic, w')
                   | Some out' \<Rightarrow>
                       (Return (Some \<lparr>StartResult.InstanceRefreshId =
                                        ToString (StartInstanceRefreshOutput.InstanceRefreshId out'),
                                      StartResult.AutoScalingGroupName = asgName\<rparr>, None), w'))))"

section \<open>DescribeRefresh\<close>

definition DescribeRefresh ::
  "ASGRefresher \<Rightarrow> string \<Rightarrow> string \<Rightarrow> 'c world
     \<Rightarrow> (InstanceRefresh option \<times> error option) go_result \<times> 'c world" where
  "DescribeRefresh r asgName refreshID w =
     (case call_DescribeInstanceRefreshes r
             \<lparr>DescribeInstanceRefreshesInput.AutoScalingGroupName = Some asgName,
              InstanceRefreshIds = [refreshID]\<rparr> w of
        ((out, err), w') \<Rightarrow>
          (case err of
             Some e \<Rightarrow>
               (Return (None, Some (Errorf ''describe instance refresh: %w'' [Wrapped e])), w')
           | None \<Rightarrow>
               (case out of
                  None \<Rightarrow> (Panic, w')
                | Some out' \<Rightarrow>
                    (if length (InstanceRefreshes out') = 0 then (Return (None, None), w')
                     else (Return (Some (InstanceRefreshes out' ! 0), None), w')))))"

section \<open>WaitForRefresh\<close>

text \<open>
  Lines 110 to 113: when the poll gave a snapshot and a callback was given, the callback
  runs on it. The result is what \<^verbatim>\<open>result\<close> points to afterwards, and the world after.
\<close>

definition after_callback ::
  "(InstanceRefresh \<Rightarrow> 'c \<Rightarrow> InstanceRefresh \<times> 'c) option \<Rightarrow> InstanceRefresh option
     \<Rightarrow> 'c world \<Rightarrow> InstanceRefresh option \<times> 'c world" where
  "after_callback statusCallback result w1 =
     (case result of
        None \<Rightarrow> (None, w1)
      | Some s \<Rightarrow>
          (case statusCallback of
             None \<Rightarrow> (Some s, w1)
           | Some f \<Rightarrow> (case call_statusCallback f s w1 of (s', w2) \<Rightarrow> (Some s', w2))))"

text \<open>
  The \<^verbatim>\<open>for\<close> loop has no bound of its own, so it is a partial function: \<open>None\<close> is a
  loop that never returns. \<open>statusCallback\<close> is \<open>None\<close> for a nil callback. The status is
  read on line 114 after the callback has run, through the pointer the callback was given,
  and that pointer is what line 115 returns.
\<close>

partial_function (option) wait_loop ::
  "ASGRefresher \<Rightarrow> string \<Rightarrow> string \<Rightarrow> Duration \<Rightarrow> Duration
     \<Rightarrow> (InstanceRefresh \<Rightarrow> 'c \<Rightarrow> InstanceRefresh \<times> 'c) option \<Rightarrow> nat \<Rightarrow> 'c world
     \<Rightarrow> ((InstanceRefresh option \<times> error option) go_result \<times> 'c world) option" where
  "wait_loop r asgName refreshID interval timeout statusCallback start w =
     (case DescribeRefresh r asgName refreshID w of
        (Panic, w1) \<Rightarrow> Some (Panic, w1)
      | (Return (result, err), w1) \<Rightarrow>
          if err \<noteq> None then Some (Return (None, err), w1)
          else
            (case after_callback statusCallback result w1 of
               (result', w2) \<Rightarrow>
                 if (case result' of
                       None \<Rightarrow> False
                     | Some s \<Rightarrow> map_index terminalStates (Status s))
                 then Some (Return (result', None), w2)
                 else
                   (case time_Since start w2 of
                      (elapsed, w3) \<Rightarrow>
                        if elapsed \<ge> timeout
                        then Some (Return (None,
                               Some (Errorf ''timed out after %.0fs waiting for refresh %s''
                                       [FloatSeconds timeout, Str refreshID])), w3)
                        else wait_loop r asgName refreshID interval timeout statusCallback
                               start (call_sleep interval w3))))"

definition WaitForRefresh ::
  "ASGRefresher \<Rightarrow> string \<Rightarrow> string \<Rightarrow> Duration \<Rightarrow> Duration
     \<Rightarrow> (InstanceRefresh \<Rightarrow> 'c \<Rightarrow> InstanceRefresh \<times> 'c) option \<Rightarrow> 'c world
     \<Rightarrow> ((InstanceRefresh option \<times> error option) go_result \<times> 'c world) option" where
  "WaitForRefresh r asgName refreshID interval timeout statusCallback w =
     (case time_Now w of
        (start, w0) \<Rightarrow>
          wait_loop r asgName refreshID interval timeout statusCallback start w0)"

section \<open>Observing a run\<close>

text \<open>
  The set of terminal statuses as the specification lists it, to be compared with the
  table \<open>terminalStates\<close> of the source.
\<close>

definition TerminalStatusSet :: "string set" where
  "TerminalStatusSet =
     {''Successful'', ''Failed'', ''Cancelled'', ''RollbackSuccessful'', ''RollbackFailed''}"

text \<open>Counting the polls (calls of the remote describe operation) and the sleeps of a history.\<close>

fun is_poll :: "event \<Rightarrow> bool" where
  "is_poll (DescribeInstanceRefreshesCall p out err) = True"
| "is_poll _ = False"

fun is_sleep :: "event \<Rightarrow> bool" where
  "is_sleep (SleepCall d) = True"
| "is_sleep _ = False"

definition polls :: "event list \<Rightarrow> nat" where
  "polls tr = length (filter is_poll tr)"

definition sleeps :: "event list \<Rightarrow> nat" where
  "sleeps tr = length (filter is_sleep tr)"

text \<open>
  The snapshot a poll made present: the first record of a describe call that returned
  no error and at least one record. Every other event, and every other describe call,
  gives none.
\<close>

fun polled :: "event \<Rightarrow> InstanceRefresh option" where
  "polled (DescribeInstanceRefreshesCall p (Some out) None) =
     (case InstanceRefreshes out of [] \<Rightarrow> None | s # rest \<Rightarrow> Some s)"
| "polled _ = None"

text \<open>The snapshots handed to the callback, and the snapshots polled present, in order.\<close>

fun callbacks :: "event list \<Rightarrow> InstanceRefresh list" where
  "callbacks [] = []"
| "callbacks (CallbackCall s # evs) = s # callbacks evs"
| "callbacks (e # evs) = callbacks evs"



text \<open>
  The request of \<open>StartRefresh\<close> in closed form: the rolling strategy, the two mandatory
  preferences always set (the percentage converted to \<^verbatim>\<open>int32\<close>), the two optional ones
  exactly as the caller gave them.
\<close>

definition request_of :: "string \<Rightarrow> RefreshOptions \<Rightarrow> StartInstanceRefreshInput" where
  "request_of asgName opts =
     \<lparr>StartInstanceRefreshInput.AutoScalingGroupName = Some asgName,
      Strategy = RefreshStrategyRolling,
      Preferences = Some
        \<lparr>RefreshPreferences.MinHealthyPercentage =
           Some (ucast (RefreshOptions.MinHealthyPercentage opts)),
         RefreshPreferences.MaxHealthyPercentage = RefreshOptions.MaxHealthyPercentage opts,
         RefreshPreferences.InstanceWarmup = RefreshOptions.InstanceWarmup opts,
         RefreshPreferences.SkipMatching = Some (RefreshOptions.SkipMatching opts)\<rparr>\<rparr>"

text \<open>The last poll of a history, if there is one.\<close>

definition last_poll :: "event list \<Rightarrow> event option" where
  "last_poll tr = (case filter is_poll (rev tr) of [] \<Rightarrow> None | e # rest \<Rightarrow> Some e)"

text \<open>
  The world at the head of the loop after \<open>n\<close> full iterations (poll, callback, timeout
  check, sleep), or \<open>None\<close> when the loop has left before: these are the states a run
  passes through, whether or not it ever returns.
\<close>

fun loop_after ::
  "nat \<Rightarrow> ASGRefresher \<Rightarrow> string \<Rightarrow> string \<Rightarrow> Duration \<Rightarrow> Duration
     \<Rightarrow> (InstanceRefresh \<Rightarrow> 'c \<Rightarrow> InstanceRefresh \<times> 'c) option \<Rightarrow> nat \<Rightarrow> 'c world
     \<Rightarrow> 'c world option" where
  "loop_after 0 r asgName refreshID interval timeout statusCallback start w = Some w"
| "loop_after (Suc n) r asgName refreshID interval timeout statusCallback start w =
     (case loop_after n r asgName refreshID interval timeout statusCallback start w of
        None \<Rightarrow> None
      | Some w' \<Rightarrow>
          (case DescribeRefresh r asgName refreshID w' of
             (Panic, w1) \<Rightarrow> None
           | (Return (result, err), w1) \<Rightarrow>
               if err \<noteq> None then None
               else
                 (case after_callback statusCallback result w1 of
                    (result', w2) \<Rightarrow>
                      if (case result' of
                            None \<Rightarrow> False
                          | Some s \<Rightarrow> map_index terminalStates (Status s))
                      then None
                      else
                        (case time_Since start w2 of
                           (elapsed, w3) \<Rightarrow>
                             if elapsed \<ge> timeout then None
                             else Some (call_sleep interval w3)))))"

text \<open>The format string of the timeout error.\<close>

definition timeout_format :: string where
  "timeout_format = ''timed out after %.0fs waiting for refresh %s''"

section \<open>Test doubles\<close>

text \<open>
  The doubles of the repository's tests: a mock client made of two functions, a refresher
  around it, and canned answers of the remote operations.
\<close>

definition mockASClient ::
  "(event list \<Rightarrow> StartInstanceRefreshInput
      \<Rightarrow> StartInstanceRefreshOutput option \<times> error option)
   \<Rightarrow> (event list \<Rightarrow> DescribeInstanceRefreshesInput
      \<Rightarrow> DescribeInstanceRefreshesOutput option \<times> error option)
   \<Rightarrow> AutoScalingAPI" where
  "mockASClient startFn describeFn =
     \<lparr>StartInstanceRefresh = startFn, DescribeInstanceRefreshes = describeFn\<rparr>"

definition newTestRefresher :: "AutoScalingAPI \<Rightarrow> ASGRefresher" where
  "newTestRefresher c = \<lparr>client = c\<rparr>"

definition snap :: "string \<Rightarrow> InstanceRefresh" where
  "snap st = \<lparr>InstanceRefresh.InstanceRefreshId = Some ''id-123'', Status = st,
              PercentageComplete = None\<rparr>"

definition start_ok ::
  "event list \<Rightarrow> StartInstanceRefreshInput
     \<Rightarrow> StartInstanceRefreshOutput option \<times> error option" where
  "start_ok tr p = (Some \<lparr>StartInstanceRefreshOutput.InstanceRefreshId = Some ''id-123''\<rparr>, None)"

definition start_error ::
  "event list \<Rightarrow> StartInstanceRefreshInput
     \<Rightarrow> StartInstanceRefreshOutput option \<times> error option" where
  "start_error tr p = (None, Some (RemoteError ''AWS error''))"

definition describe_status ::
  "string \<Rightarrow> event list \<Rightarrow> DescribeInstanceRefreshesInput
     \<Rightarrow> DescribeInstanceRefreshesOutput option \<times> error option" where
  "describe_status st tr p = (Some \<lparr>InstanceRefreshes = [snap st]\<rparr>, None)"

definition describe_empty ::
  "event list \<Rightarrow> DescribeInstanceRefreshesInput
     \<Rightarrow> DescribeInstanceRefreshesOutput option \<times> error option" where
  "describe_empty tr p = (Some \<lparr>InstanceRefreshes = []\<rparr>, None)"

definition describe_error ::
  "event list \<Rightarrow> DescribeInstanceRefreshesInput
     \<Rightarrow> DescribeInstanceRefreshesOutput option \<times> error option" where
  "describe_error tr p = (None, Some (RemoteError ''AWS error''))"

text \<open>A mock that answers the first call with one status and every later call with another.\<close>

definition describe_then ::
  "string \<Rightarrow> string \<Rightarrow> event list \<Rightarrow> DescribeInstanceRefreshesInput
     \<Rightarrow> DescribeInstanceRefreshesOutput option \<times> error option" where
  "describe_then st1 st2 tr p =
     (Some \<lparr>InstanceRefreshes = [snap (if polls tr = 0 then st1 else st2)]\<rparr>, None)"

text \<open>The mock of \<^verbatim>\<open>TestWaitForRefresh_PollsThenSucceeds\<close>: successful from the third call on.\<close>

definition describe_third ::
  "event list \<Rightarrow> DescribeInstanceRefreshesInput
     \<Rightarrow> DescribeInstanceRefreshesOutput option \<times> error option" where
  "describe_third tr p =
     (Some \<lparr>InstanceRefreshes =
        [snap (if polls tr + 1 \<ge> 3 then ''Successful'' else ''InProgress'')]\<rparr>, None)"

text \<open>
  Two worlds with an empty history: one whose clock stands still, one where fifteen
  seconds pass between any two readings.
\<close>

definition world0 :: "nat world" where
  "world0 = \<lparr>mono = 0, tick = (\<lambda>tr. 0), trace = [], caller = 0\<rparr>"

definition world_slow :: "nat world" where
  "world_slow = \<lparr>mono = 0, tick = (\<lambda>tr. 15000000000), trace = [], caller = 0\<rparr>"

text \<open>
  Callbacks: the one of the tests counts its calls and leaves the snapshot alone; the
  other two also write a status into the snapshot, on every call or on the first only.
\<close>

definition count_callback :: "InstanceRefresh \<Rightarrow> nat \<Rightarrow> InstanceRefresh \<times> nat" where
  "count_callback s n = (s, Suc n)"

definition write_status :: "string \<Rightarrow> InstanceRefresh \<Rightarrow> nat \<Rightarrow> InstanceRefresh \<times> nat" where
  "write_status st s n = (s\<lparr>Status := st\<rparr>, Suc n)"

definition write_first :: "string \<Rightarrow> InstanceRefresh \<Rightarrow> nat \<Rightarrow> InstanceRefresh \<times> nat" where
  "write_first st s n = (if n = 0 then s\<lparr>Status := st\<rparr> else s, Suc n)"

text \<open>
  The describe call of the tests as an event, and the history of the run in which the
  third poll is the first to succeed.
\<close>

definition describe_event :: "string \<Rightarrow> event" where
  "describe_event st =
     DescribeInstanceRefreshesCall
       \<lparr>DescribeInstanceRefreshesInput.AutoScalingGroupName = Some ''asg'',
        InstanceRefreshIds = [''id'']\<rparr>
       (Some \<lparr>InstanceRefreshes = [snap st]\<rparr>) None"

definition trace_third :: "event list" where
  "trace_third =
     [ClockRead 0,
      describe_event ''InProgress'', CallbackCall (snap ''InProgress''),
      ClockRead 0, SleepCall 1000000,
      describe_event ''InProgress'', CallbackCall (snap ''InProgress''),
      ClockRead 0, SleepCall 1000000,
      describe_event ''Successful'', CallbackCall (snap ''Successful'')]"

text \<open>Options: a percentage beyond 32 bits, and the defaults of the tests.\<close>

definition opts_wide :: RefreshOptions where
  "opts_wide = \<lparr>RefreshOptions.MinHealthyPercentage = 4294967386,
                RefreshOptions.MaxHealthyPercentage = None,
                RefreshOptions.InstanceWarmup = None,
                RefreshOptions.SkipMatching = False\<rparr>"

definition opts_default :: RefreshOptions where
  "opts_default = \<lparr>RefreshOptions.MinHealthyPercentage = 90,
               RefreshOptions.MaxHealthyPercentage = None,
               RefreshOptions.InstanceWarmup = None,
               RefreshOptions.SkipMatching = True\<rparr>"

section \<open>Basic facts about the world and the history\<close>

lemma trace_emit [simp]: "trace (emit e w) = trace w @ [e]"
  and mono_emit [simp]: "mono (emit e w) = mono w"
  and tick_emit [simp]: "tick (emit e w) = tick w"
  and caller_emit [simp]: "caller (emit e w) = caller w"
  by (simp_all add: emit_def)

lemma polls_append [simp]: "polls (xs @ ys) = polls xs + polls ys"
  by (simp add: polls_def)

lemma sleeps_append [simp]: "sleeps (xs @ ys) = sleeps xs + sleeps ys"
  by (simp add: sleeps_def)

lemma polls_Cons [simp]: "polls (e # xs) = (if is_poll e then 1 else 0) + polls xs"
  and polls_Nil [simp]: "polls [] = 0"
  by (simp_all add: polls_def)

lemma sleeps_Cons [simp]: "sleeps (e # xs) = (if is_sleep e then 1 else 0) + sleeps xs"
  and sleeps_Nil [simp]: "sleeps [] = 0"
  by (simp_all add: sleeps_def)

lemma call_statusCallback_world [simp]:
  "fst (call_statusCallback f s w) = fst (f s (caller w))"
  "trace (snd (call_statusCallback f s w)) = trace w @ [CallbackCall s]"
  "mono (snd (call_statusCallback f s w)) = mono w"
  "tick (snd (call_statusCallback f s w)) = tick w"
  "caller (snd (call_statusCallback f s w)) = snd (f s (caller w))"
  by (simp_all add: call_statusCallback_def split: prod.split)

lemma call_sleep_world [simp]:
  "trace (call_sleep d w) = trace w @ [SleepCall d]"
  "mono (call_sleep d w) = mono w"
  "tick (call_sleep d w) = tick w"
  "caller (call_sleep d w) = caller w"
  by (simp_all add: call_sleep_def)

text \<open>What the callback step leaves: the snapshot, the history, the clock, the caller's state.\<close>

lemma after_callback_fst:
  "fst (after_callback statusCallback result w1) =
     (case result of
        None \<Rightarrow> None
      | Some s \<Rightarrow> (case statusCallback of
                     None \<Rightarrow> Some s
                   | Some f \<Rightarrow> Some (fst (f s (caller w1)))))"
  by (simp add: after_callback_def call_statusCallback_def split: option.split prod.split)

lemma after_callback_trace:
  "trace (snd (after_callback statusCallback result w1)) =
     trace w1 @ (case result of
                   None \<Rightarrow> []
                 | Some s \<Rightarrow> (case statusCallback of
                                None \<Rightarrow> []
                              | Some f \<Rightarrow> [CallbackCall s]))"
  by (simp add: after_callback_def call_statusCallback_def split: option.split prod.split)

lemma after_callback_clock [simp]:
  "mono (snd (after_callback statusCallback result w1)) = mono w1"
  "tick (snd (after_callback statusCallback result w1)) = tick w1"
  by (simp_all add: after_callback_def call_statusCallback_def split: option.split prod.split)


lemma after_callback_None [simp]: "after_callback None result w1 = (result, w1)"
  by (simp add: after_callback_def split: option.split)

text \<open>A callback that leaves the status alone leaves the status of what the poll gave.\<close>

lemma after_callback_status:
  assumes "\<forall>f s c. statusCallback = Some f \<longrightarrow> Status (fst (f s c)) = Status s"
  shows "map_option Status (fst (after_callback statusCallback result w1)) =
           map_option Status result"
  using assms by (simp add: after_callback_fst split: option.split)

text \<open>A call of \<open>DescribeRefresh\<close> adds one event, the remote describe call, and nothing else.\<close>

lemma DescribeRefresh_snd:
  "snd (DescribeRefresh r asgName refreshID w) =
     emit (DescribeInstanceRefreshesCall
             \<lparr>DescribeInstanceRefreshesInput.AutoScalingGroupName = Some asgName,
              InstanceRefreshIds = [refreshID]\<rparr>
             (fst (DescribeInstanceRefreshes (client r) (trace w)
                \<lparr>DescribeInstanceRefreshesInput.AutoScalingGroupName = Some asgName,
                 InstanceRefreshIds = [refreshID]\<rparr>))
             (snd (DescribeInstanceRefreshes (client r) (trace w)
                \<lparr>DescribeInstanceRefreshesInput.AutoScalingGroupName = Some asgName,
                 InstanceRefreshIds = [refreshID]\<rparr>))) w"
  by (simp add: DescribeRefresh_def call_DescribeInstanceRefreshes_def
           split: prod.splits option.splits)

lemma DescribeRefresh_world:
  assumes "DescribeRefresh r asgName refreshID w = (res, w1)"
  shows "\<exists>ev. is_poll ev \<and> w1 = emit ev w"
proof -
  have "w1 = snd (DescribeRefresh r asgName refreshID w)"
    using assms by simp
  then show ?thesis
    unfolding DescribeRefresh_snd using is_poll.simps(1) by blast
qed

text \<open>The table of the source holds exactly the statuses the specification lists.\<close>

lemma map_index_terminalStates:
  "map_index terminalStates st \<longleftrightarrow> st \<in> TerminalStatusSet"
  by (simp add: map_index_def terminalStates_def TerminalStatusSet_def)

lemma callbacks_append [simp]: "callbacks (xs @ ys) = callbacks xs @ callbacks ys"
  by (induction xs rule: callbacks.induct) simp_all

lemma callbacks_poll [simp]: "is_poll ev \<Longrightarrow> callbacks [ev] = []"
  by (cases ev) simp_all

lemma time_Now_world:
  assumes "time_Now w = (t, w')"
  shows "t = mono w + tick w (trace w)" "mono w' = t" "trace w' = trace w @ [ClockRead t]"
    "tick w' = tick w" "caller w' = caller w"
  using assms by (auto simp: time_Now_def Let_def)

lemma time_Since_world:
  assumes "time_Since start w = (d, w')"
  shows "d = int (mono w + tick w (trace w)) - int start"
    "trace w' = trace w @ [ClockRead (mono w + tick w (trace w))]"
    "mono w' = mono w + tick w (trace w)" "tick w' = tick w" "caller w' = caller w"
  using assms by (auto simp: time_Since_def time_Now_def Let_def)

text \<open>The error of the Inspector is the client's error, wrapped once; it comes with no snapshot.\<close>

lemma DescribeRefresh_error:
  assumes "DescribeRefresh r asgName refreshID w = (Return (x, Some e), w1)"
  shows "x = None \<and> (\<exists>out e0.
           DescribeInstanceRefreshes (client r) (trace w)
             \<lparr>DescribeInstanceRefreshesInput.AutoScalingGroupName = Some asgName,
              InstanceRefreshIds = [refreshID]\<rparr> = (out, Some e0)
           \<and> e = Errorf ''describe instance refresh: %w'' [Wrapped e0])"
  using assms
  by (auto simp: DescribeRefresh_def call_DescribeInstanceRefreshes_def
           split: prod.splits option.splits if_splits)

text \<open>The request that \<open>StartRefresh\<close> sends, the answer it gets and the world it leaves.\<close>

lemma StartRefresh_unfold:
  "StartRefresh r asgName opts w =
     (case StartInstanceRefresh (client r) (trace w) (request_of asgName opts) of
        (out, err) \<Rightarrow>
          (case err of
             Some e \<Rightarrow> Return (None, Some (Errorf ''start instance refresh: %w'' [Wrapped e]))
           | None \<Rightarrow>
               (case out of
                  None \<Rightarrow> Panic
                | Some out' \<Rightarrow>
                    Return (Some \<lparr>StartResult.InstanceRefreshId =
                                    ToString (StartInstanceRefreshOutput.InstanceRefreshId out'),
                                  StartResult.AutoScalingGroupName = asgName\<rparr>, None)),
           emit (StartInstanceRefreshCall (request_of asgName opts) out err) w))"
  by (cases "RefreshOptions.InstanceWarmup opts"; cases "RefreshOptions.MaxHealthyPercentage opts")
     (simp_all add: StartRefresh_def call_StartInstanceRefresh_def request_of_def Let_def
        split: prod.splits option.splits)

lemma StartRefresh_snd:
  "snd (StartRefresh r asgName opts w) =
     emit (StartInstanceRefreshCall (request_of asgName opts)
        (fst (StartInstanceRefresh (client r) (trace w) (request_of asgName opts)))
        (snd (StartInstanceRefresh (client r) (trace w) (request_of asgName opts)))) w"
  by (simp add: StartRefresh_unfold split: prod.splits)

lemma callbacks_poll_Cons [simp]: "is_poll ev \<Longrightarrow> callbacks (ev # evs) = callbacks evs"
  by (cases ev) simp_all






lemma last_poll_snoc:
  "last_poll (tr @ [e]) = (if is_poll e then Some e else last_poll tr)"
  by (simp add: last_poll_def)

lemma last_poll_after_callback:
  "last_poll (trace (snd (after_callback statusCallback result w1))) = last_poll (trace w1)"
  by (simp add: after_callback_trace last_poll_def split: option.split)

lemma DescribeRefresh_ok:
  assumes "DescribeRefresh r asgName refreshID w = (Return (result, None), w1)"
  shows "\<exists>p out. w1 = emit (DescribeInstanceRefreshesCall p (Some out) None) w
           \<and> polled (DescribeInstanceRefreshesCall p (Some out) None) = result"
proof -
  let ?p = "\<lparr>DescribeInstanceRefreshesInput.AutoScalingGroupName = Some asgName,
             InstanceRefreshIds = [refreshID]\<rparr>"
  obtain out err where resp: "DescribeInstanceRefreshes (client r) (trace w) ?p = (out, err)"
    by (cases "DescribeInstanceRefreshes (client r) (trace w) ?p")
  have "err = None" and "out \<noteq> None"
    using assms resp
    by (auto simp: DescribeRefresh_def call_DescribeInstanceRefreshes_def
             split: option.splits if_splits)
  then obtain out' where out: "out = Some out'" "err = None" by auto
  have "w1 = emit (DescribeInstanceRefreshesCall ?p (Some out') None) w"
    and "polled (DescribeInstanceRefreshesCall ?p (Some out') None) = result"
    using assms resp out
    by (auto simp: DescribeRefresh_def call_DescribeInstanceRefreshes_def neq_Nil_conv
             split: if_splits)
  then show ?thesis by blast
qed

section \<open>The loop, one iteration at a time\<close>

text \<open>The five ways one iteration of the loop can go.\<close>

lemma wait_loop_body_cases [consumes 1, case_names panic error terminal timeout continue]:
  assumes "(case DescribeRefresh r asgName refreshID w of
        (Panic, w1) \<Rightarrow> Some (Panic, w1)
      | (Return (result, err), w1) \<Rightarrow>
          if err \<noteq> None then Some (Return (None, err), w1)
          else
            (case after_callback statusCallback result w1 of
               (result', w2) \<Rightarrow>
                 if (case result' of
                       None \<Rightarrow> False
                     | Some s \<Rightarrow> map_index terminalStates (Status s))
                 then Some (Return (result', None), w2)
                 else
                   (case time_Since start w2 of
                      (elapsed, w3) \<Rightarrow>
                        if elapsed \<ge> timeout
                        then Some (Return (None,
                               Some (Errorf ''timed out after %.0fs waiting for refresh %s''
                                       [FloatSeconds timeout, Str refreshID])), w3)
                        else loop r asgName refreshID interval timeout statusCallback
                               start (call_sleep interval w3)))) = Some y"
  obtains
    (panic) w1 where "DescribeRefresh r asgName refreshID w = (Panic, w1)" "y = (Panic, w1)"
  | (error) x e w1 where "DescribeRefresh r asgName refreshID w = (Return (x, Some e), w1)"
      "y = (Return (None, Some e), w1)"
  | (terminal) result w1 s' w2 where
      "DescribeRefresh r asgName refreshID w = (Return (result, None), w1)"
      "after_callback statusCallback result w1 = (Some s', w2)"
      "Status s' \<in> TerminalStatusSet"
      "y = (Return (Some s', None), w2)"
  | (timeout) result w1 result' w2 elapsed w3 where
      "DescribeRefresh r asgName refreshID w = (Return (result, None), w1)"
      "after_callback statusCallback result w1 = (result', w2)"
      "\<forall>s. result' = Some s \<longrightarrow> Status s \<notin> TerminalStatusSet"
      "time_Since start w2 = (elapsed, w3)"
      "timeout \<le> elapsed"
      "y = (Return (None, Some (Errorf timeout_format
                                 [FloatSeconds timeout, Str refreshID])), w3)"
  | (continue) result w1 result' w2 elapsed w3 where
      "DescribeRefresh r asgName refreshID w = (Return (result, None), w1)"
      "after_callback statusCallback result w1 = (result', w2)"
      "\<forall>s. result' = Some s \<longrightarrow> Status s \<notin> TerminalStatusSet"
      "time_Since start w2 = (elapsed, w3)"
      "elapsed < timeout"
      "loop r asgName refreshID interval timeout statusCallback start
         (call_sleep interval w3) = Some y"
proof -
  obtain res w1 where d: "DescribeRefresh r asgName refreshID w = (res, w1)"
    by (cases "DescribeRefresh r asgName refreshID w")
  show thesis
  proof (cases res)
    case Panic
    then show thesis using assms d panic by auto
  next
    case (Return pr)
    obtain result err where pr: "pr = (result, err)" by (cases pr)
    show thesis
    proof (cases err)
      case (Some e)
      then show thesis using assms d Return pr error by auto
    next
      case None
      obtain result' w2 where ac: "after_callback statusCallback result w1 = (result', w2)"
        by (cases "after_callback statusCallback result w1")
      obtain elapsed w3 where since: "time_Since start w2 = (elapsed, w3)"
        by (cases "time_Since start w2")
      have body: "(if case result' of None \<Rightarrow> False
                        | Some s \<Rightarrow> map_index terminalStates (Status s)
                   then Some (Return (result', None), w2)
                   else if timeout \<le> elapsed
                        then Some (Return (None, Some (Errorf timeout_format
                                     [FloatSeconds timeout, Str refreshID])), w3)
                        else loop r asgName refreshID interval timeout statusCallback start
                               (call_sleep interval w3)) = Some y"
        using assms
        unfolding d Return pr None prod.case go_result.case ac since
          timeout_format_def [symmetric]
        by simp
      show thesis
      proof (cases "case result' of None \<Rightarrow> False
                    | Some s \<Rightarrow> map_index terminalStates (Status s)")
        case True
        then obtain s' where s: "result' = Some s'" "Status s' \<in> TerminalStatusSet"
          by (auto simp: map_index_terminalStates split: option.splits)
        then show thesis
          using body True d Return pr None ac terminal [of result w1 s' w2] by auto
      next
        case False
        then have nt: "\<forall>s. result' = Some s \<longrightarrow> Status s \<notin> TerminalStatusSet"
          by (auto simp: map_index_terminalStates)
        show thesis
        proof (cases "timeout \<le> elapsed")
          case True
          then show thesis
            using body False d Return pr None nt ac since
              timeout [of result w1 result' w2 elapsed w3]
            by auto
        next
          case late: False
          then show thesis
            using body False d Return pr None nt ac since
              continue [of result w1 result' w2 elapsed w3]
            by auto
        qed
      qed
    qed
  qed
qed



text \<open>
  What a run that returns can return: a snapshot only with a terminal status and a nil
  error; an error made from the timeout's format only with the configured timeout and the
  identifier as its arguments, and with a nil snapshot.
\<close>

lemma wait_loop_result:
  assumes "wait_loop r asgName refreshID interval timeout statusCallback start w = Some y"
  shows "(\<forall>s e. fst y = Return (Some s, e) \<longrightarrow> Status s \<in> TerminalStatusSet \<and> e = None)
       \<and> (\<forall>x args. fst y = Return (x, Some (Errorf timeout_format args)) \<longrightarrow>
             x = None \<and> args = [FloatSeconds timeout, Str refreshID])"
  using assms
proof (induction r asgName refreshID interval timeout statusCallback start w y
        rule: wait_loop.raw_induct [rotated 1, consumes 1, case_names step])
  case (step loop r asgName refreshID interval timeout statusCallback start w y)
  from step.hyps(1) show ?case
  proof (cases rule: wait_loop_body_cases)
    case (panic w1)
    then show ?thesis by simp
  next
    case (error x e w1)
    then show ?thesis
      using DescribeRefresh_error [OF error(1)] by (auto simp: timeout_format_def)
  next
    case (terminal result w1 s' w2)
    then show ?thesis by simp
  next
    case (timeout result w1 result' w2 elapsed w3)
    then show ?thesis by simp
  next
    case (continue result w1 result' w2 elapsed w3)
    from step.IH [OF continue(6)] show ?thesis .
  qed
qed

text \<open>
  With no callback, or a callback that leaves the status alone, the timeout error comes
  only after a last poll that succeeded and made no snapshot with a terminal status present.
\<close>

lemma wait_loop_timeout_last_poll:
  assumes "wait_loop r asgName refreshID interval timeout statusCallback start w = Some y"
  shows "(\<forall>f s c. statusCallback = Some f \<longrightarrow> Status (fst (f s c)) = Status s) \<longrightarrow>
         (\<forall>x args. fst y = Return (x, Some (Errorf timeout_format args)) \<longrightarrow>
            (\<exists>p out. last_poll (trace (snd y)) =
                         Some (DescribeInstanceRefreshesCall p (Some out) None)
               \<and> (\<forall>s. polled (DescribeInstanceRefreshesCall p (Some out) None) = Some s
                      \<longrightarrow> Status s \<notin> TerminalStatusSet)))"
  using assms
proof (induction r asgName refreshID interval timeout statusCallback start w y
        rule: wait_loop.raw_induct [rotated 1, consumes 1, case_names step])
  case (step loop r asgName refreshID interval timeout statusCallback start w y)
  from step.hyps(1) show ?case
  proof (cases rule: wait_loop_body_cases)
    case (panic w1)
    then show ?thesis by simp
  next
    case (error x e w1)
    then show ?thesis
      using DescribeRefresh_error [OF error(1)] by (auto simp: timeout_format_def)
  next
    case (terminal result w1 s' w2)
    then show ?thesis by simp
  next
    case (timeout result w1 result' w2 elapsed w3)
    show ?thesis
    proof (intro impI allI)
      fix x args
      assume keep: "\<forall>f s c. statusCallback = Some f \<longrightarrow> Status (fst (f s c)) = Status s"
      from DescribeRefresh_ok [OF timeout(1)] obtain p out where
        ev: "w1 = emit (DescribeInstanceRefreshesCall p (Some out) None) w"
          "polled (DescribeInstanceRefreshesCall p (Some out) None) = result"
        by blast
      have w2: "w2 = snd (after_callback statusCallback result w1)"
        and r': "result' = fst (after_callback statusCallback result w1)"
        using timeout(2) by simp_all
      have "last_poll (trace w3) = Some (DescribeInstanceRefreshesCall p (Some out) None)"
        using time_Since_world(2) [OF timeout(4)] ev(1)
        by (simp add: w2 last_poll_snoc last_poll_after_callback)
      moreover have "map_option Status result' = map_option Status result"
        unfolding r' using keep by (rule after_callback_status)
      then have "\<forall>s. result = Some s \<longrightarrow> Status s \<notin> TerminalStatusSet"
        using timeout(3) by (cases result; cases result') auto
      ultimately show "\<exists>p out. last_poll (trace (snd y)) =
                         Some (DescribeInstanceRefreshesCall p (Some out) None)
               \<and> (\<forall>s. polled (DescribeInstanceRefreshesCall p (Some out) None) = Some s
                      \<longrightarrow> Status s \<notin> TerminalStatusSet)"
        using timeout(6) ev(2) by auto
    qed
  next
    case (continue result w1 result' w2 elapsed w3)
    from step.IH [OF continue(6)] show ?thesis .
  qed
qed

text \<open>One iteration that ends with no terminal status: the timeout check decides.\<close>

lemma wait_loop_continue:
  assumes "DescribeRefresh r asgName refreshID w = (Return (result, None), w1)"
    and "after_callback statusCallback result w1 = (result', w2)"
    and "\<forall>s. result' = Some s \<longrightarrow> Status s \<notin> TerminalStatusSet"
    and "time_Since start w2 = (elapsed, w3)"
  shows "wait_loop r asgName refreshID interval timeout statusCallback start w =
           (if timeout \<le> elapsed
            then Some (Return (None,
                   Some (Errorf ''timed out after %.0fs waiting for refresh %s''
                           [FloatSeconds timeout, Str refreshID])), w3)
            else wait_loop r asgName refreshID interval timeout statusCallback start
                   (call_sleep interval w3))"
proof -
  have nt: "\<not> (case result' of None \<Rightarrow> False
                | Some s \<Rightarrow> map_index terminalStates (Status s))"
    using assms(3) by (simp add: map_index_terminalStates split: option.split)
  show ?thesis
    apply (subst wait_loop.simps)
    unfolding assms(1) prod.case go_result.case assms(2) assms(4)
    using nt by simp
qed

lemma wait_loop_terminal:
  assumes "DescribeRefresh r asgName refreshID w = (Return (result, None), w1)"
    and "after_callback statusCallback result w1 = (Some s', w2)"
    and "Status s' \<in> TerminalStatusSet"
  shows "wait_loop r asgName refreshID interval timeout statusCallback start w =
           Some (Return (Some s', None), w2)"
  using assms
  by (subst wait_loop.simps) (simp add: map_index_terminalStates)

lemma loop_after_Suc_cases:
  assumes "loop_after (Suc n) r asgName refreshID interval timeout statusCallback start w =
             Some w''"
  obtains w' result w1 result' w2 elapsed w3 where
    "loop_after n r asgName refreshID interval timeout statusCallback start w = Some w'"
    "DescribeRefresh r asgName refreshID w' = (Return (result, None), w1)"
    "after_callback statusCallback result w1 = (result', w2)"
    "\<forall>s. result' = Some s \<longrightarrow> Status s \<notin> TerminalStatusSet"
    "time_Since start w2 = (elapsed, w3)"
    "elapsed < timeout"
    "w'' = call_sleep interval w3"
  using assms
  by (auto simp: map_index_terminalStates
           split: option.splits prod.splits go_result.splits if_splits)

text \<open>The loop started in a state it passes through does what the loop started at first does.\<close>

lemma loop_after_wait_loop:
  "loop_after n r asgName refreshID interval timeout statusCallback start w = Some w'
   \<Longrightarrow> wait_loop r asgName refreshID interval timeout statusCallback start w =
       wait_loop r asgName refreshID interval timeout statusCallback start w'"
proof (induction n arbitrary: w')
  case 0
  then show ?case by simp
next
  case (Suc n)
  from Suc.prems obtain v result w1 result' w2 elapsed w3 where
    v: "loop_after n r asgName refreshID interval timeout statusCallback start w = Some v"
      "DescribeRefresh r asgName refreshID v = (Return (result, None), w1)"
      "after_callback statusCallback result w1 = (result', w2)"
      "\<forall>s. result' = Some s \<longrightarrow> Status s \<notin> TerminalStatusSet"
      "time_Since start w2 = (elapsed, w3)"
      "elapsed < timeout"
      "w' = call_sleep interval w3"
    by (rule loop_after_Suc_cases)
  have "wait_loop r asgName refreshID interval timeout statusCallback start v =
          wait_loop r asgName refreshID interval timeout statusCallback start w'"
    using wait_loop_continue [OF v(2,3,4,5), of interval timeout] v(6,7) by simp
  with Suc.IH [OF v(1)] show ?case by simp
qed


lemmas double_defs =
  newTestRefresher_def mockASClient_def snap_def start_ok_def start_error_def
  describe_status_def describe_empty_def describe_error_def describe_third_def
  describe_then_def world0_def world_slow_def count_callback_def write_status_def
  write_first_def opts_default_def opts_wide_def

lemmas run_defs =
  WaitForRefresh_def time_Now_def time_Since_def DescribeRefresh_def
  call_DescribeInstanceRefreshes_def call_statusCallback_def call_sleep_def emit_def
  map_index_def terminalStates_def after_callback_def TerminalStatusSet_def

lemmas run_defs2 = run_defs double_defs describe_event_def trace_third_def

section \<open>The Waiter stops at a terminal status\<close>

text \<open>
  Claim C1, as amended. At any iteration of the loop of \<open>WaitForRefresh\<close>, whatever the
  interval, the timeout and the start time: if the poll returns a present snapshot and,
  once the callback (when one is given) has run on it, its status is Successful, Failed,
  Cancelled, RollbackSuccessful or RollbackFailed, the Waiter returns that snapshot, as
  the callback left it, with no error. From that poll on, the history grows by the one
  describe call and, when a callback was given, its invocation: there is no further poll,
  no sleep and no reading of the clock. Success and failure statuses are treated alike.
  With no callback, or a callback that does not write to the snapshot, the snapshot
  returned is exactly the one polled.
\<close>

theorem terminal_after_callback_returns_snapshot:
  assumes "DescribeRefresh r asgName refreshID w = (Return (Some s, None), w1)"
    and "after_callback statusCallback (Some s) w1 = (Some s', w2)"
    and "Status s' \<in> TerminalStatusSet"
  shows "\<exists>ev. wait_loop r asgName refreshID interval timeout statusCallback start w =
                Some (Return (Some s', None), w2)
           \<and> is_poll ev
           \<and> trace w2 = trace w @ ev #
                (case statusCallback of None \<Rightarrow> [] | Some f \<Rightarrow> [CallbackCall s])
           \<and> polls (trace w2) = polls (trace w) + 1
           \<and> sleeps (trace w2) = sleeps (trace w)
           \<and> ((\<forall>f. statusCallback = Some f \<longrightarrow> fst (f s (caller w1)) = s) \<longrightarrow> s' = s)"
proof -
  from DescribeRefresh_world [OF assms(1)] obtain ev where
    ev: "is_poll ev" "w1 = emit ev w" by blast
  have w2: "w2 = snd (after_callback statusCallback (Some s) w1)"
    and s': "Some s' = fst (after_callback statusCallback (Some s) w1)"
    using assms(2) by simp_all
  have run: "wait_loop r asgName refreshID interval timeout statusCallback start w =
               Some (Return (Some s', None), w2)"
    using assms by (rule wait_loop_terminal)
  have tr: "trace w2 = trace w @ ev #
              (case statusCallback of None \<Rightarrow> [] | Some f \<Rightarrow> [CallbackCall s])"
    using ev by (simp add: w2 after_callback_trace split: option.split)
  have cnt: "polls (trace w2) = polls (trace w) + 1" "sleeps (trace w2) = sleeps (trace w)"
    using ev(1) by (cases ev; simp add: tr split: option.split)+
  have same: "(\<forall>f. statusCallback = Some f \<longrightarrow> fst (f s (caller w1)) = s) \<longrightarrow> s' = s"
    using s' by (auto simp: after_callback_fst split: option.splits)
  from run tr cnt same ev(1) show ?thesis by blast
qed

theorem terminal_after_callback_returns_snapshot_witness:
  "DescribeRefresh (newTestRefresher (mockASClient start_ok (describe_status ''Failed'')))
      ''asg'' ''id'' world0 =
     (Return (Some (snap ''Failed''), None), emit (describe_event ''Failed'') world0)
   \<and> after_callback (Some count_callback) (Some (snap ''Failed''))
        (emit (describe_event ''Failed'') world0) =
       (Some (snap ''Failed''),
        world0\<lparr>trace := [describe_event ''Failed'', CallbackCall (snap ''Failed'')],
                caller := 1\<rparr>)
   \<and> Status (snap ''Failed'') \<in> TerminalStatusSet
   \<and> wait_loop (newTestRefresher (mockASClient start_ok (describe_status ''Failed'')))
        ''asg'' ''id'' 1000000 60000000000 (Some count_callback) 0 world0 =
       Some (Return (Some (snap ''Failed''), None),
             world0\<lparr>trace := [describe_event ''Failed'', CallbackCall (snap ''Failed'')],
                     caller := 1\<rparr>)
   \<and> polls [describe_event ''Failed'', CallbackCall (snap ''Failed'')] = 1
   \<and> sleeps [describe_event ''Failed'', CallbackCall (snap ''Failed'')] = 0"
proof -
  have h1: "DescribeRefresh
      (newTestRefresher (mockASClient start_ok (describe_status ''Failed'')))
      ''asg'' ''id'' world0 =
     (Return (Some (snap ''Failed''), None), emit (describe_event ''Failed'') world0)"
    by (simp add: run_defs2)
  have h2: "after_callback (Some count_callback) (Some (snap ''Failed''))
        (emit (describe_event ''Failed'') world0) =
       (Some (snap ''Failed''),
        world0\<lparr>trace := [describe_event ''Failed'', CallbackCall (snap ''Failed'')],
                caller := 1\<rparr>)"
    by (simp add: run_defs2)
  have h3: "Status (snap ''Failed'') \<in> TerminalStatusSet"
    by (simp add: snap_def TerminalStatusSet_def)
  have h4: "trace world0 = []"
    by (simp add: world0_def)
  from terminal_after_callback_returns_snapshot [OF h1 h2 h3, where interval = 1000000
      and timeout = 60000000000 and start = 0]
  obtain ev where
    r: "wait_loop (newTestRefresher (mockASClient start_ok (describe_status ''Failed'')))
        ''asg'' ''id'' 1000000 60000000000 (Some count_callback) 0 world0 =
       Some (Return (Some (snap ''Failed''), None),
             world0\<lparr>trace := [describe_event ''Failed'', CallbackCall (snap ''Failed'')],
                     caller := 1\<rparr>)"
      "polls (trace (world0\<lparr>trace := [describe_event ''Failed'',
                                        CallbackCall (snap ''Failed'')], caller := 1\<rparr>)) =
         polls (trace world0) + 1"
      "sleeps (trace (world0\<lparr>trace := [describe_event ''Failed'',
                                         CallbackCall (snap ''Failed'')], caller := 1\<rparr>)) =
         sleeps (trace world0)"
    by blast
  have r2: "polls [describe_event ''Failed'', CallbackCall (snap ''Failed'')] = 1"
    and r3: "sleeps [describe_event ''Failed'', CallbackCall (snap ''Failed'')] = 0"
    using r(2,3) by (simp_all add: h4)
  show ?thesis
    by (intro conjI h1 h2 h3 r(1) r2 r3)
qed

text \<open>
  The claim as first stated, for every poll that returns a terminal snapshot, fails when
  the callback writes to the snapshot: line 114 reads the status through the pointer the
  callback was given. Here every poll returns Successful, the callback writes InProgress
  into the first snapshot, and the Waiter sleeps and polls a second time.
\<close>

theorem terminal_poll_not_returned_counterexample:
  "fst (DescribeRefresh
          (newTestRefresher (mockASClient start_ok (describe_status ''Successful'')))
          ''asg'' ''id'' (snd (time_Now world0))) =
     Return (Some (snap ''Successful''), None)
   \<and> Status (snap ''Successful'') \<in> TerminalStatusSet
   \<and> WaitForRefresh
        (newTestRefresher (mockASClient start_ok (describe_status ''Successful'')))
        ''asg'' ''id'' 1000000 60000000000 (Some (write_first ''InProgress'')) world0 =
       Some (Return (Some (snap ''Successful''), None),
             world0\<lparr>trace :=
                      [ClockRead 0,
                       describe_event ''Successful'', CallbackCall (snap ''Successful''),
                       ClockRead 0, SleepCall 1000000,
                       describe_event ''Successful'', CallbackCall (snap ''Successful'')],
                     caller := 2\<rparr>)
   \<and> polls [ClockRead 0,
             describe_event ''Successful'', CallbackCall (snap ''Successful''),
             ClockRead 0, SleepCall 1000000,
             describe_event ''Successful'', CallbackCall (snap ''Successful'')] = 2
   \<and> sleeps [ClockRead 0,
              describe_event ''Successful'', CallbackCall (snap ''Successful''),
              ClockRead 0, SleepCall 1000000,
              describe_event ''Successful'', CallbackCall (snap ''Successful'')] = 1"
  by (simp add: run_defs2 wait_loop.simps)

section \<open>A timeout of zero\<close>

text \<open>
  Claim C2, as amended. With a timeout of zero, when the first poll returns no error and
  either no snapshot or a snapshot whose status is not terminal once the callback (when
  one is given) has run on it, \<open>WaitForRefresh\<close> returns the timeout error after exactly one
  poll and no sleep. The clock is read after the poll, and the time elapsed on a monotonic
  clock is never negative, so the check \<^verbatim>\<open>time.Since(start) >= timeout\<close> succeeds at once;
  it is never made before a poll. With no callback, or a callback that does not write the
  status, the condition is that the snapshot polled is absent or not terminal.
\<close>

theorem zero_timeout_polls_once:
  assumes "time_Now w = (start, w0)"
    and "DescribeRefresh r asgName refreshID w0 = (Return (result, None), w1)"
    and "after_callback statusCallback result w1 = (result', w2)"
    and "\<forall>s. result' = Some s \<longrightarrow> Status s \<notin> TerminalStatusSet"
  shows "\<exists>w'. WaitForRefresh r asgName refreshID interval 0 statusCallback w =
                Some (Return (None,
                        Some (Errorf ''timed out after %.0fs waiting for refresh %s''
                                [FloatSeconds 0, Str refreshID])), w')
           \<and> polls (trace w') = polls (trace w) + 1
           \<and> sleeps (trace w') = sleeps (trace w)"
proof -
  from DescribeRefresh_world [OF assms(2)] obtain ev where
    ev: "is_poll ev" "w1 = emit ev w0" by blast
  have w2: "w2 = snd (after_callback statusCallback result w1)"
    using assms(3) by simp
  obtain elapsed w3 where since: "time_Since start w2 = (elapsed, w3)"
    by (cases "time_Since start w2")
  have m2: "mono w2 = start"
    using time_Now_world(2) [OF assms(1)] ev(2) by (simp add: w2)
  have "0 \<le> elapsed"
    using time_Since_world(1) [OF since] m2 by simp
  then have run: "WaitForRefresh r asgName refreshID interval 0 statusCallback w =
               Some (Return (None,
                       Some (Errorf ''timed out after %.0fs waiting for refresh %s''
                               [FloatSeconds 0, Str refreshID])), w3)"
    using wait_loop_continue [OF assms(2,3,4) since, of interval 0]
    by (simp add: WaitForRefresh_def assms(1))
  have tr3: "trace w3 = trace w2 @ [ClockRead (mono w2 + tick w2 (trace w2))]"
    using time_Since_world(2) [OF since] .
  have tr2: "polls (trace w2) = polls (trace w) + 1 \<and> sleeps (trace w2) = sleeps (trace w)"
    using ev time_Now_world(3) [OF assms(1)]
    by (cases ev) (simp_all add: w2 after_callback_trace split: option.split)
  have "polls (trace w3) = polls (trace w) + 1" "sleeps (trace w3) = sleeps (trace w)"
    using tr2 by (simp_all add: tr3)
  with run show ?thesis by blast
qed

theorem zero_timeout_polls_once_witness:
  "time_Now world0 = (0, emit (ClockRead 0) world0)
   \<and> DescribeRefresh (newTestRefresher (mockASClient start_ok (describe_status ''InProgress'')))
        ''asg'' ''id'' (emit (ClockRead 0) world0) =
       (Return (Some (snap ''InProgress''), None),
        emit (describe_event ''InProgress'') (emit (ClockRead 0) world0))
   \<and> after_callback (Some count_callback) (Some (snap ''InProgress''))
        (emit (describe_event ''InProgress'') (emit (ClockRead 0) world0)) =
       (Some (snap ''InProgress''),
        world0\<lparr>trace := [ClockRead 0, describe_event ''InProgress'',
                          CallbackCall (snap ''InProgress'')],
                caller := 1\<rparr>)
   \<and> Status (snap ''InProgress'') \<notin> TerminalStatusSet
   \<and> (\<exists>w'. WaitForRefresh
                (newTestRefresher (mockASClient start_ok (describe_status ''InProgress'')))
                ''asg'' ''id'' 1000000 0 (Some count_callback) world0 =
              Some (Return (None,
                      Some (Errorf ''timed out after %.0fs waiting for refresh %s''
                              [FloatSeconds 0, Str ''id''])), w')
          \<and> polls (trace w') = 1
          \<and> sleeps (trace w') = 0)"
proof -
  have h1: "time_Now world0 = (0, emit (ClockRead 0) world0)"
    by (simp add: time_Now_def world0_def emit_def)
  have h2: "DescribeRefresh
        (newTestRefresher (mockASClient start_ok (describe_status ''InProgress'')))
        ''asg'' ''id'' (emit (ClockRead 0) world0) =
       (Return (Some (snap ''InProgress''), None),
        emit (describe_event ''InProgress'') (emit (ClockRead 0) world0))"
    by (simp add: run_defs2)
  have h3: "after_callback (Some count_callback) (Some (snap ''InProgress''))
        (emit (describe_event ''InProgress'') (emit (ClockRead 0) world0)) =
       (Some (snap ''InProgress''),
        world0\<lparr>trace := [ClockRead 0, describe_event ''InProgress'',
                          CallbackCall (snap ''InProgress'')],
                caller := 1\<rparr>)"
    by (simp add: run_defs2)
  have h4: "Status (snap ''InProgress'') \<notin> TerminalStatusSet"
    by (simp add: snap_def TerminalStatusSet_def)
  have h4': "\<forall>s. Some (snap ''InProgress'') = Some s \<longrightarrow> Status s \<notin> TerminalStatusSet"
    using h4 by simp
  have h5: "trace world0 = []"
    by (simp add: world0_def)
  from zero_timeout_polls_once [OF h1 h2 h3 h4', where interval = 1000000]
  have r: "\<exists>w'. WaitForRefresh
                (newTestRefresher (mockASClient start_ok (describe_status ''InProgress'')))
                ''asg'' ''id'' 1000000 0 (Some count_callback) world0 =
              Some (Return (None,
                      Some (Errorf ''timed out after %.0fs waiting for refresh %s''
                              [FloatSeconds 0, Str ''id''])), w')
          \<and> polls (trace w') = 1
          \<and> sleeps (trace w') = 0"
    by (simp add: h5)
  show ?thesis
    by (intro conjI h1 h2 h3 h4 r)
qed

text \<open>
  The claim as first stated, for every poll that yields a snapshot that is not terminal,
  fails when the callback writes a terminal status into the snapshot: with a timeout of
  zero, a poll that returns InProgress and a callback that writes Successful, the Waiter
  returns the snapshot and no error.
\<close>

theorem zero_timeout_snapshot_counterexample:
  "fst (DescribeRefresh
          (newTestRefresher (mockASClient start_ok (describe_status ''InProgress'')))
          ''asg'' ''id'' (snd (time_Now world0))) =
     Return (Some (snap ''InProgress''), None)
   \<and> Status (snap ''InProgress'') \<notin> TerminalStatusSet
   \<and> WaitForRefresh
        (newTestRefresher (mockASClient start_ok (describe_status ''InProgress'')))
        ''asg'' ''id'' 1000000 0 (Some (write_status ''Successful'')) world0 =
       Some (Return (Some (snap ''Successful''), None),
             world0\<lparr>trace := [ClockRead 0, describe_event ''InProgress'',
                               CallbackCall (snap ''InProgress'')],
                     caller := 1\<rparr>)"
  by (simp add: run_defs2 wait_loop.simps)

section \<open>Errors of the Inspector\<close>

text \<open>
  Claim C4. At any iteration of the loop, if \<open>DescribeRefresh\<close> returns an error, the
  Waiter returns that very error with a nil snapshot. The world it returns is the world
  the Inspector left: the history has grown by the one describe call, the callback was not
  invoked (its state is untouched), and there is no sleep and no further poll. The error
  is the client's error wrapped once by the Inspector, and nothing more.
\<close>

theorem inspector_error_aborts:
  assumes "DescribeRefresh r asgName refreshID w = (Return (x, Some e), w1)"
  shows "wait_loop r asgName refreshID interval timeout statusCallback start w =
           Some (Return (None, Some e), w1)
       \<and> (\<exists>ev. is_poll ev \<and> trace w1 = trace w @ [ev])
       \<and> callbacks (trace w1) = callbacks (trace w)
       \<and> caller w1 = caller w
       \<and> polls (trace w1) = polls (trace w) + 1
       \<and> sleeps (trace w1) = sleeps (trace w)
       \<and> (\<exists>out e0. DescribeInstanceRefreshes (client r) (trace w)
             \<lparr>DescribeInstanceRefreshesInput.AutoScalingGroupName = Some asgName,
              InstanceRefreshIds = [refreshID]\<rparr> = (out, Some e0)
           \<and> e = Errorf ''describe instance refresh: %w'' [Wrapped e0])"
proof -
  from DescribeRefresh_world [OF assms] obtain ev where
    ev: "is_poll ev" "w1 = emit ev w" by blast
  have run: "wait_loop r asgName refreshID interval timeout statusCallback start w =
               Some (Return (None, Some e), w1)"
    by (subst wait_loop.simps) (simp add: assms)
  have "polls (trace w1) = polls (trace w) + 1" "sleeps (trace w1) = sleeps (trace w)"
    using ev by (cases ev; simp)+
  moreover have "callbacks (trace w1) = callbacks (trace w)" "caller w1 = caller w"
    using ev by simp_all
  moreover have "\<exists>ev. is_poll ev \<and> trace w1 = trace w @ [ev]"
    using ev by auto
  ultimately show ?thesis
    using run DescribeRefresh_error [OF assms] by blast
qed

theorem inspector_error_aborts_witness:
  "DescribeRefresh (newTestRefresher (mockASClient start_ok describe_error))
      ''asg'' ''id'' world0 =
     (Return (None, Some (Errorf ''describe instance refresh: %w''
                            [Wrapped (RemoteError ''AWS error'')])),
      emit (DescribeInstanceRefreshesCall
              \<lparr>DescribeInstanceRefreshesInput.AutoScalingGroupName = Some ''asg'',
               InstanceRefreshIds = [''id'']\<rparr>
              None (Some (RemoteError ''AWS error''))) world0)
   \<and> wait_loop (newTestRefresher (mockASClient start_ok describe_error))
        ''asg'' ''id'' 1000000 60000000000 (Some count_callback) 0 world0 =
       Some (Return (None, Some (Errorf ''describe instance refresh: %w''
                                   [Wrapped (RemoteError ''AWS error'')])),
             emit (DescribeInstanceRefreshesCall
                     \<lparr>DescribeInstanceRefreshesInput.AutoScalingGroupName = Some ''asg'',
                      InstanceRefreshIds = [''id'']\<rparr>
                     None (Some (RemoteError ''AWS error''))) world0)"
proof -
  have h1: "DescribeRefresh (newTestRefresher (mockASClient start_ok describe_error))
      ''asg'' ''id'' world0 =
     (Return (None, Some (Errorf ''describe instance refresh: %w''
                            [Wrapped (RemoteError ''AWS error'')])),
      emit (DescribeInstanceRefreshesCall
              \<lparr>DescribeInstanceRefreshesInput.AutoScalingGroupName = Some ''asg'',
               InstanceRefreshIds = [''id'']\<rparr>
              None (Some (RemoteError ''AWS error''))) world0)"
    by (simp add: DescribeRefresh_def call_DescribeInstanceRefreshes_def
          newTestRefresher_def mockASClient_def describe_error_def)
  from inspector_error_aborts [OF h1, where interval = 1000000
      and timeout = 60000000000 and statusCallback = "Some count_callback" and start = 0]
  show ?thesis using h1 by simp
qed

section \<open>Absent is not an error\<close>

text \<open>
  Claim C5. When the remote describe call succeeds, \<open>DescribeRefresh\<close> does not panic:
  with zero records it returns a nil snapshot and a nil error, and with at least one
  record it returns the first record and a nil error.
\<close>

theorem DescribeRefresh_absent_is_not_error:
  assumes "DescribeInstanceRefreshes (client r) (trace w)
             \<lparr>DescribeInstanceRefreshesInput.AutoScalingGroupName = Some asgName,
              InstanceRefreshIds = [refreshID]\<rparr> = (Some out, None)"
  shows "(InstanceRefreshes out = [] \<longrightarrow>
            fst (DescribeRefresh r asgName refreshID w) = Return (None, None))
       \<and> (\<forall>x xs. InstanceRefreshes out = x # xs \<longrightarrow>
            fst (DescribeRefresh r asgName refreshID w) = Return (Some x, None))
       \<and> fst (DescribeRefresh r asgName refreshID w) \<noteq> Panic"
  using assms
  by (auto simp: DescribeRefresh_def call_DescribeInstanceRefreshes_def)

theorem DescribeRefresh_absent_is_not_error_witness:
  "fst (DescribeRefresh (newTestRefresher (mockASClient start_ok describe_empty))
          ''asg'' ''id-123'' world0) = Return (None, None)
   \<and> fst (DescribeRefresh
            (newTestRefresher (mockASClient start_ok (describe_status ''Successful'')))
            ''asg'' ''id-123'' world0) = Return (Some (snap ''Successful''), None)"
proof -
  have h1: "DescribeInstanceRefreshes
              (client (newTestRefresher (mockASClient start_ok describe_empty)))
              (trace world0)
              \<lparr>DescribeInstanceRefreshesInput.AutoScalingGroupName = Some ''asg'',
               InstanceRefreshIds = [''id-123'']\<rparr> =
            (Some \<lparr>InstanceRefreshes = []\<rparr>, None)"
    by (simp add: newTestRefresher_def mockASClient_def describe_empty_def)
  have h2: "DescribeInstanceRefreshes
              (client (newTestRefresher
                 (mockASClient start_ok (describe_status ''Successful''))))
              (trace world0)
              \<lparr>DescribeInstanceRefreshesInput.AutoScalingGroupName = Some ''asg'',
               InstanceRefreshIds = [''id-123'']\<rparr> =
            (Some \<lparr>InstanceRefreshes = [snap ''Successful'']\<rparr>, None)"
    by (simp add: newTestRefresher_def mockASClient_def describe_status_def)
  from DescribeRefresh_absent_is_not_error [OF h1]
    DescribeRefresh_absent_is_not_error [OF h2]
  show ?thesis by simp
qed

section \<open>The percentage sent by StartRefresh\<close>

text \<open>
  Claim C3. The claim says that \<open>MinHealthyPercentage\<close> is always sent as supplied. The
  code converts the supplied \<^verbatim>\<open>int\<close> with \<^verbatim>\<open>int32(opts.MinHealthyPercentage)\<close> and
  checks no range, so a value that does not fit in 32 bits is sent as another value:
  for 4294967386 the request carries 90.
\<close>

theorem StartRefresh_narrows_percentage:
  "RefreshOptions.MinHealthyPercentage opts_wide = 4294967386
   \<and> sint (4294967386 :: 64 word) = 4294967386
   \<and> trace (snd (StartRefresh (newTestRefresher (mockASClient start_ok describe_empty))
                   ''asg'' opts_wide world0)) =
        [StartInstanceRefreshCall
           \<lparr>StartInstanceRefreshInput.AutoScalingGroupName = Some ''asg'',
            Strategy = RefreshStrategyRolling,
            Preferences = Some
              \<lparr>RefreshPreferences.MinHealthyPercentage = Some 90,
               RefreshPreferences.MaxHealthyPercentage = None,
               RefreshPreferences.InstanceWarmup = None,
               RefreshPreferences.SkipMatching = Some False\<rparr>\<rparr>
           (Some \<lparr>StartInstanceRefreshOutput.InstanceRefreshId = Some ''id-123''\<rparr>) None]
   \<and> sint (90 :: 32 word) \<noteq> sint (RefreshOptions.MinHealthyPercentage opts_wide)"
  by (simp add: StartRefresh_def call_StartInstanceRefresh_def opts_wide_def
        newTestRefresher_def mockASClient_def start_ok_def world0_def emit_def)

section \<open>The call made by StartRefresh\<close>

text \<open>
  Claim C9. Every call of \<open>StartRefresh\<close> makes exactly one remote call, a
  \<open>StartInstanceRefresh\<close> whose strategy is the rolling one and whose group name is the
  caller's. When the remote call succeeds, the handle returned holds the identifier the
  remote system assigned and the caller's group name, with a nil error. When it fails,
  the result is a nil handle and an error that wraps the cause; the call is not repeated.
\<close>

theorem StartRefresh_one_rolling_call:
  assumes "StartInstanceRefresh (client r) (trace w) (request_of asgName opts) = (out, err)"
  shows "Strategy (request_of asgName opts) = RefreshStrategyRolling
       \<and> StartInstanceRefreshInput.AutoScalingGroupName (request_of asgName opts) = Some asgName
       \<and> trace (snd (StartRefresh r asgName opts w)) =
           trace w @ [StartInstanceRefreshCall (request_of asgName opts) out err]
       \<and> (\<forall>e. err = Some e \<longrightarrow>
            fst (StartRefresh r asgName opts w) =
              Return (None, Some (Errorf ''start instance refresh: %w'' [Wrapped e])))
       \<and> (\<forall>out'. err = None \<and> out = Some out' \<longrightarrow>
            fst (StartRefresh r asgName opts w) =
              Return (Some \<lparr>StartResult.InstanceRefreshId =
                              ToString (StartInstanceRefreshOutput.InstanceRefreshId out'),
                            StartResult.AutoScalingGroupName = asgName\<rparr>, None))"
  using assms by (simp add: StartRefresh_unfold) (simp add: request_of_def)

theorem StartRefresh_one_rolling_call_witness:
  "trace (snd (StartRefresh (newTestRefresher (mockASClient start_ok describe_empty))
                 ''my-asg'' opts_default world0)) =
     [StartInstanceRefreshCall (request_of ''my-asg'' opts_default)
        (Some \<lparr>StartInstanceRefreshOutput.InstanceRefreshId = Some ''id-123''\<rparr>) None]
   \<and> fst (StartRefresh (newTestRefresher (mockASClient start_ok describe_empty))
            ''my-asg'' opts_default world0) =
       Return (Some \<lparr>StartResult.InstanceRefreshId = ''id-123'',
                     StartResult.AutoScalingGroupName = ''my-asg''\<rparr>, None)
   \<and> trace (snd (StartRefresh (newTestRefresher (mockASClient start_error describe_empty))
                 ''asg'' opts_default world0)) =
     [StartInstanceRefreshCall (request_of ''asg'' opts_default)
        None (Some (RemoteError ''AWS error''))]
   \<and> fst (StartRefresh (newTestRefresher (mockASClient start_error describe_empty))
            ''asg'' opts_default world0) =
       Return (None, Some (Errorf ''start instance refresh: %w''
                             [Wrapped (RemoteError ''AWS error'')]))"
proof -
  have h1: "StartInstanceRefresh
              (client (newTestRefresher (mockASClient start_ok describe_empty)))
              (trace world0) (request_of ''my-asg'' opts_default) =
            (Some \<lparr>StartInstanceRefreshOutput.InstanceRefreshId = Some ''id-123''\<rparr>, None)"
    by (simp add: newTestRefresher_def mockASClient_def start_ok_def)
  have h2: "StartInstanceRefresh
              (client (newTestRefresher (mockASClient start_error describe_empty)))
              (trace world0) (request_of ''asg'' opts_default) =
            (None, Some (RemoteError ''AWS error''))"
    by (simp add: newTestRefresher_def mockASClient_def start_error_def)
  have h: "trace world0 = []"
    by (simp add: world0_def)
  from StartRefresh_one_rolling_call [OF h1] StartRefresh_one_rolling_call [OF h2]
  show ?thesis by (simp add: h ToString_def)
qed

section \<open>The progress callback\<close>



section \<open>The terminal statuses\<close>

text \<open>
  Claim C7, as amended. The table \<open>terminalStates\<close> holds exactly Successful, Failed,
  Cancelled, RollbackSuccessful and RollbackFailed. At any iteration of the loop, a present
  snapshot that has any other status string once the callback (when one is given) has run
  on it does not end the loop: the Waiter goes on as it does when no record was found, to
  the timeout check, and, the timeout not being reached, it sleeps and polls again. With
  no callback, or a callback that does not write the status, that is every snapshot
  polled with a status outside the set. A snapshot that the loop returns always has a
  status of the set.
\<close>

theorem status_outside_set_keeps_polling:
  "(map_index terminalStates st \<longleftrightarrow> st \<in> TerminalStatusSet)
   \<and> (DescribeRefresh r asgName refreshID w = (Return (Some s, None), w1)
        \<and> after_callback statusCallback (Some s) w1 = (Some s', w2)
        \<and> Status s' \<notin> TerminalStatusSet
        \<and> time_Since start w2 = (elapsed, w3)
      \<longrightarrow> wait_loop r asgName refreshID interval timeout statusCallback start w =
            (if timeout \<le> elapsed
             then Some (Return (None,
                    Some (Errorf ''timed out after %.0fs waiting for refresh %s''
                            [FloatSeconds timeout, Str refreshID])), w3)
             else wait_loop r asgName refreshID interval timeout statusCallback start
                    (call_sleep interval w3)))
   \<and> (wait_loop r asgName refreshID interval timeout statusCallback start w =
         Some (Return (Some s'', e), w')
      \<longrightarrow> Status s'' \<in> TerminalStatusSet)"
proof (intro conjI impI)
  show "map_index terminalStates st \<longleftrightarrow> st \<in> TerminalStatusSet"
    by (rule map_index_terminalStates)
next
  assume a: "DescribeRefresh r asgName refreshID w = (Return (Some s, None), w1)
        \<and> after_callback statusCallback (Some s) w1 = (Some s', w2)
        \<and> Status s' \<notin> TerminalStatusSet
        \<and> time_Since start w2 = (elapsed, w3)"
  then have "\<forall>x. Some s' = Some x \<longrightarrow> Status x \<notin> TerminalStatusSet" by simp
  with a show "wait_loop r asgName refreshID interval timeout statusCallback start w =
            (if timeout \<le> elapsed
             then Some (Return (None,
                    Some (Errorf ''timed out after %.0fs waiting for refresh %s''
                            [FloatSeconds timeout, Str refreshID])), w3)
             else wait_loop r asgName refreshID interval timeout statusCallback start
                    (call_sleep interval w3))"
    using wait_loop_continue by blast
next
  assume "wait_loop r asgName refreshID interval timeout statusCallback start w =
         Some (Return (Some s'', e), w')"
  from wait_loop_result [OF this] show "Status s'' \<in> TerminalStatusSet" by simp
qed

theorem status_outside_set_keeps_polling_witness:
  "\<not> map_index terminalStates ''Draining''
   \<and> map_index terminalStates ''RollbackFailed''
   \<and> DescribeRefresh
        (newTestRefresher (mockASClient start_ok (describe_then ''Draining'' ''Successful'')))
        ''asg'' ''id'' world0 =
       (Return (Some (snap ''Draining''), None), emit (describe_event ''Draining'') world0)
   \<and> after_callback (Some count_callback) (Some (snap ''Draining''))
        (emit (describe_event ''Draining'') world0) =
       (Some (snap ''Draining''),
        world0\<lparr>trace := [describe_event ''Draining'', CallbackCall (snap ''Draining'')],
                caller := 1\<rparr>)
   \<and> Status (snap ''Draining'') \<notin> TerminalStatusSet
   \<and> time_Since 0
        (world0\<lparr>trace := [describe_event ''Draining'', CallbackCall (snap ''Draining'')],
                caller := 1\<rparr>) =
       (0, world0\<lparr>trace := [describe_event ''Draining'', CallbackCall (snap ''Draining''),
                             ClockRead 0],
                   caller := 1\<rparr>)
   \<and> wait_loop
        (newTestRefresher (mockASClient start_ok (describe_then ''Draining'' ''Successful'')))
        ''asg'' ''id'' 1000000 60000000000 (Some count_callback) 0 world0 =
       wait_loop
        (newTestRefresher (mockASClient start_ok (describe_then ''Draining'' ''Successful'')))
        ''asg'' ''id'' 1000000 60000000000 (Some count_callback) 0
        (call_sleep 1000000
           (world0\<lparr>trace := [describe_event ''Draining'', CallbackCall (snap ''Draining''),
                             ClockRead 0],
                   caller := 1\<rparr>))
   \<and> wait_loop
        (newTestRefresher (mockASClient start_ok (describe_then ''Draining'' ''Successful'')))
        ''asg'' ''id'' 1000000 60000000000 (Some count_callback) 0
        (call_sleep 1000000
           (world0\<lparr>trace := [describe_event ''Draining'', CallbackCall (snap ''Draining''),
                             ClockRead 0],
                   caller := 1\<rparr>)) =
       Some (Return (Some (snap ''Successful''), None),
             world0\<lparr>trace := [describe_event ''Draining'', CallbackCall (snap ''Draining''),
                               ClockRead 0, SleepCall 1000000,
                               describe_event ''Successful'',
                               CallbackCall (snap ''Successful'')],
                     caller := 2\<rparr>)
   \<and> Status (snap ''Successful'') \<in> TerminalStatusSet"
proof -
  let ?r = "newTestRefresher (mockASClient start_ok (describe_then ''Draining'' ''Successful''))"
  let ?w2 = "world0\<lparr>trace := [describe_event ''Draining'', CallbackCall (snap ''Draining'')],
                    caller := 1\<rparr>"
  let ?w3 = "world0\<lparr>trace := [describe_event ''Draining'', CallbackCall (snap ''Draining''),
                              ClockRead 0],
                    caller := 1\<rparr>"
  let ?w' = "world0\<lparr>trace := [describe_event ''Draining'', CallbackCall (snap ''Draining''),
                              ClockRead 0, SleepCall 1000000,
                              describe_event ''Successful'',
                              CallbackCall (snap ''Successful'')],
                    caller := 2\<rparr>"
  have t1: "\<not> map_index terminalStates ''Draining''"
    using conjunct1 [OF status_outside_set_keeps_polling [of "''Draining''"]]
    by (simp add: TerminalStatusSet_def)
  have t2: "map_index terminalStates ''RollbackFailed''"
    using conjunct1 [OF status_outside_set_keeps_polling [of "''RollbackFailed''"]]
    by (simp add: TerminalStatusSet_def)
  have h1: "DescribeRefresh ?r ''asg'' ''id'' world0 =
       (Return (Some (snap ''Draining''), None), emit (describe_event ''Draining'') world0)"
    by (simp add: run_defs2)
  have h2: "after_callback (Some count_callback) (Some (snap ''Draining''))
        (emit (describe_event ''Draining'') world0) = (Some (snap ''Draining''), ?w2)"
    by (simp add: run_defs2)
  have h3: "Status (snap ''Draining'') \<notin> TerminalStatusSet"
    by (simp add: run_defs2)
  have h4: "time_Since 0 ?w2 = (0, ?w3)"
    by (simp add: run_defs2)
  have run: "wait_loop ?r ''asg'' ''id'' 1000000 60000000000 (Some count_callback) 0 world0 =
               Some (Return (Some (snap ''Successful''), None), ?w')"
    by (simp add: run_defs2 wait_loop.simps)
  note t = status_outside_set_keeps_polling [of _ ?r "''asg''" "''id''" world0
      "snap ''Draining''" "emit (describe_event ''Draining'') world0"
      "Some count_callback" "snap ''Draining''" ?w2 0 0 ?w3 1000000 60000000000
      "snap ''Successful''" None ?w']
  have "wait_loop ?r ''asg'' ''id'' 1000000 60000000000 (Some count_callback) 0 world0 =
          (if (60000000000 :: int) \<le> 0
           then Some (Return (None,
                  Some (Errorf ''timed out after %.0fs waiting for refresh %s''
                          [FloatSeconds 60000000000, Str ''id''])), ?w3)
           else wait_loop ?r ''asg'' ''id'' 1000000 60000000000 (Some count_callback) 0
                  (call_sleep 1000000 ?w3))"
    by (rule mp [OF conjunct1 [OF conjunct2 [OF t]]]) (intro conjI h1 h2 h3 h4)
  then have r1: "wait_loop ?r ''asg'' ''id'' 1000000 60000000000 (Some count_callback) 0 world0 =
           wait_loop ?r ''asg'' ''id'' 1000000 60000000000 (Some count_callback) 0
                  (call_sleep 1000000 ?w3)"
    by simp
  have r2: "wait_loop ?r ''asg'' ''id'' 1000000 60000000000 (Some count_callback) 0
                  (call_sleep 1000000 ?w3) =
              Some (Return (Some (snap ''Successful''), None), ?w')"
    using r1 run by simp
  have r3: "Status (snap ''Successful'') \<in> TerminalStatusSet"
    by (rule mp [OF conjunct2 [OF conjunct2 [OF t]]]) (rule run)
  show ?thesis
    by (intro conjI t1 t2 h1 h2 h3 h4 r1 r2 r3)
qed

text \<open>
  The claim as first stated, for every status string outside the set, fails when the
  callback writes a terminal status into the snapshot: a poll returns the status Draining,
  the callback writes Cancelled, and the Waiter returns after this one poll.
\<close>

theorem status_outside_set_returned_counterexample:
  "fst (DescribeRefresh
          (newTestRefresher (mockASClient start_ok (describe_status ''Draining'')))
          ''asg'' ''id'' (snd (time_Now world0))) =
     Return (Some (snap ''Draining''), None)
   \<and> Status (snap ''Draining'') \<notin> TerminalStatusSet
   \<and> WaitForRefresh
        (newTestRefresher (mockASClient start_ok (describe_status ''Draining'')))
        ''asg'' ''id'' 1000000 60000000000 (Some (write_status ''Cancelled'')) world0 =
       Some (Return (Some (snap ''Cancelled''), None),
             world0\<lparr>trace := [ClockRead 0, describe_event ''Draining'',
                               CallbackCall (snap ''Draining'')],
                     caller := 1\<rparr>)"
  by (simp add: run_defs2 wait_loop.simps)

section \<open>The timeout error\<close>

text \<open>
  Claim C8, as amended. Whenever the loop ends by timeout (a poll without error found no
  record, or left a status that is not terminal once the callback has run, and the time
  elapsed since the start has reached the timeout), the error returned is made from the
  format
  \<^verbatim>\<open>timed out after %.0fs waiting for refresh %s\<close> with the configured timeout in seconds
  and the refresh identifier as its arguments, and the snapshot returned is nil. The
  error names the configured timeout, not the time that has elapsed.
\<close>

theorem timeout_error_names_timeout_and_id:
  "(DescribeRefresh r asgName refreshID w = (Return (result, None), w1)
      \<and> after_callback statusCallback result w1 = (result', w2)
      \<and> (\<forall>s. result' = Some s \<longrightarrow> Status s \<notin> TerminalStatusSet)
      \<and> time_Since start w2 = (elapsed, w3)
      \<and> timeout \<le> elapsed
    \<longrightarrow> wait_loop r asgName refreshID interval timeout statusCallback start w =
          Some (Return (None,
                  Some (Errorf ''timed out after %.0fs waiting for refresh %s''
                          [FloatSeconds timeout, Str refreshID])), w3))
   \<and> (wait_loop r asgName refreshID interval timeout statusCallback start w =
         Some (Return (x, Some (Errorf ''timed out after %.0fs waiting for refresh %s'' args)),
               w')
      \<longrightarrow> x = None \<and> args = [FloatSeconds timeout, Str refreshID])"
proof (intro conjI impI)
  assume a: "DescribeRefresh r asgName refreshID w = (Return (result, None), w1)
      \<and> after_callback statusCallback result w1 = (result', w2)
      \<and> (\<forall>s. result' = Some s \<longrightarrow> Status s \<notin> TerminalStatusSet)
      \<and> time_Since start w2 = (elapsed, w3)
      \<and> timeout \<le> elapsed"
  then show "wait_loop r asgName refreshID interval timeout statusCallback start w =
          Some (Return (None,
                  Some (Errorf ''timed out after %.0fs waiting for refresh %s''
                          [FloatSeconds timeout, Str refreshID])), w3)"
    using wait_loop_continue [of r asgName refreshID w result w1 statusCallback result' w2
        start elapsed w3 interval timeout]
    by simp
next
  assume a: "wait_loop r asgName refreshID interval timeout statusCallback start w =
         Some (Return (x, Some (Errorf ''timed out after %.0fs waiting for refresh %s'' args)),
               w')"
  from wait_loop_result [OF a] show "x = None" "args = [FloatSeconds timeout, Str refreshID]"
    by (simp_all add: timeout_format_def)
qed

theorem timeout_error_names_timeout_and_id_witness:
  "DescribeRefresh (newTestRefresher (mockASClient start_ok (describe_status ''InProgress'')))
      ''asg'' ''id'' (snd (time_Now world_slow)) =
     (Return (Some (snap ''InProgress''), None),
      emit (describe_event ''InProgress'') (snd (time_Now world_slow)))
   \<and> after_callback None (Some (snap ''InProgress''))
        (emit (describe_event ''InProgress'') (snd (time_Now world_slow))) =
       (Some (snap ''InProgress''),
        emit (describe_event ''InProgress'') (snd (time_Now world_slow)))
   \<and> Status (snap ''InProgress'') \<notin> TerminalStatusSet
   \<and> time_Since 15000000000
        (emit (describe_event ''InProgress'') (snd (time_Now world_slow))) =
       (15000000000,
        world_slow\<lparr>mono := 30000000000,
                    trace := [ClockRead 15000000000, describe_event ''InProgress'',
                              ClockRead 30000000000]\<rparr>)
   \<and> (10000000000 :: int) \<le> 15000000000
   \<and> wait_loop (newTestRefresher (mockASClient start_ok (describe_status ''InProgress'')))
        ''asg'' ''id'' 1000000000 10000000000 None 15000000000 (snd (time_Now world_slow)) =
       Some (Return (None,
               Some (Errorf ''timed out after %.0fs waiting for refresh %s''
                       [FloatSeconds 10000000000, Str ''id''])),
             world_slow\<lparr>mono := 30000000000,
                         trace := [ClockRead 15000000000, describe_event ''InProgress'',
                                   ClockRead 30000000000]\<rparr>)"
proof -
  let ?r = "newTestRefresher (mockASClient start_ok (describe_status ''InProgress''))"
  let ?w1 = "emit (describe_event ''InProgress'') (snd (time_Now world_slow))"
  let ?w3 = "world_slow\<lparr>mono := 30000000000,
                        trace := [ClockRead 15000000000, describe_event ''InProgress'',
                                  ClockRead 30000000000]\<rparr>"
  have h1: "DescribeRefresh ?r ''asg'' ''id'' (snd (time_Now world_slow)) =
     (Return (Some (snap ''InProgress''), None), ?w1)"
    by (simp add: run_defs2)
  have h2: "after_callback None (Some (snap ''InProgress'')) ?w1 =
              (Some (snap ''InProgress''), ?w1)"
    by simp
  have h3: "Status (snap ''InProgress'') \<notin> TerminalStatusSet"
    by (simp add: run_defs2)
  have h3': "\<forall>s. Some (snap ''InProgress'') = Some s \<longrightarrow> Status s \<notin> TerminalStatusSet"
    using h3 by simp
  have h4: "time_Since 15000000000 ?w1 = (15000000000, ?w3)"
    by (simp add: run_defs2)
  have h5: "(10000000000 :: int) \<le> 15000000000"
    by simp
  note t = timeout_error_names_timeout_and_id [of ?r "''asg''" "''id''"
      "snd (time_Now world_slow)" "Some (snap ''InProgress'')" ?w1 None
      "Some (snap ''InProgress'')" ?w1 15000000000 15000000000 ?w3 10000000000 1000000000]
  have r: "wait_loop ?r ''asg'' ''id'' 1000000000 10000000000 None 15000000000
             (snd (time_Now world_slow)) =
       Some (Return (None,
               Some (Errorf ''timed out after %.0fs waiting for refresh %s''
                       [FloatSeconds 10000000000, Str ''id''])), ?w3)"
    by (rule mp [OF conjunct1 [OF t]]) (intro conjI h1 h2 h3' h4 h5)
  show ?thesis
    by (intro conjI h1 h2 h3 h4 h5 r)
qed

text \<open>
  The claim as first stated, that the error names the elapsed duration, fails when more
  time has passed than the timeout asks for: with a timeout of ten seconds and a clock
  that shows fifteen seconds elapsed at the check, the error carries ten seconds.
\<close>

theorem timeout_error_names_elapsed_counterexample:
  "fst (time_Since (fst (time_Now world_slow))
          (snd (DescribeRefresh
                  (newTestRefresher (mockASClient start_ok (describe_status ''InProgress'')))
                  ''asg'' ''id'' (snd (time_Now world_slow))))) = 15000000000
   \<and> map_option fst
        (WaitForRefresh
           (newTestRefresher (mockASClient start_ok (describe_status ''InProgress'')))
           ''asg'' ''id'' 1000000000 10000000000 None world_slow) =
       Some (Return (None,
               Some (Errorf ''timed out after %.0fs waiting for refresh %s''
                       [FloatSeconds 10000000000, Str ''id''])))
   \<and> FloatSeconds 10000000000 \<noteq> FloatSeconds 15000000000"
  by (simp add: run_defs2 wait_loop.simps)

section \<open>Terminal status before timeout\<close>

text \<open>
  Claim C10, as amended. At any iteration, a poll that returns a present snapshot whose
  status is terminal once the callback (when one is given) has run on it makes the Waiter
  return that snapshot with no error even when the time elapsed has already reached the
  timeout: the status is examined first and the clock is not read. Hence, with no
  callback or a callback that does not write the status, when the loop returns the
  timeout error the last poll of the history was a successful describe call that made no
  snapshot with a terminal status present: it found no record, or a status outside the
  set.
\<close>

theorem terminal_status_precedes_timeout:
  "(DescribeRefresh r asgName refreshID w = (Return (Some s, None), w1)
      \<and> after_callback statusCallback (Some s) w1 = (Some s', w2)
      \<and> Status s' \<in> TerminalStatusSet
      \<and> timeout \<le> fst (time_Since start w2)
    \<longrightarrow> wait_loop r asgName refreshID interval timeout statusCallback start w =
          Some (Return (Some s', None), w2))
   \<and> ((\<forall>f s c. statusCallback = Some f \<longrightarrow> Status (fst (f s c)) = Status s)
        \<and> wait_loop r asgName refreshID interval timeout statusCallback start w =
            Some (Return (x, Some (Errorf ''timed out after %.0fs waiting for refresh %s''
                                    args)), w')
      \<longrightarrow> (\<exists>p out. last_poll (trace w') =
                      Some (DescribeInstanceRefreshesCall p (Some out) None)
            \<and> (\<forall>s''. polled (DescribeInstanceRefreshesCall p (Some out) None) = Some s''
                    \<longrightarrow> Status s'' \<notin> TerminalStatusSet)))"
proof (intro conjI impI)
  assume "DescribeRefresh r asgName refreshID w = (Return (Some s, None), w1)
      \<and> after_callback statusCallback (Some s) w1 = (Some s', w2)
      \<and> Status s' \<in> TerminalStatusSet
      \<and> timeout \<le> fst (time_Since start w2)"
  then show "wait_loop r asgName refreshID interval timeout statusCallback start w =
          Some (Return (Some s', None), w2)"
    using wait_loop_terminal by blast
next
  assume a: "(\<forall>f s c. statusCallback = Some f \<longrightarrow> Status (fst (f s c)) = Status s)
        \<and> wait_loop r asgName refreshID interval timeout statusCallback start w =
            Some (Return (x, Some (Errorf ''timed out after %.0fs waiting for refresh %s''
                                    args)), w')"
  then have run: "wait_loop r asgName refreshID interval timeout statusCallback start w =
            Some (Return (x, Some (Errorf ''timed out after %.0fs waiting for refresh %s''
                                    args)), w')"
    and keep: "\<forall>f s c. statusCallback = Some f \<longrightarrow> Status (fst (f s c)) = Status s"
    by simp_all
  from wait_loop_timeout_last_poll [OF run] keep
  show "\<exists>p out. last_poll (trace w') =
                      Some (DescribeInstanceRefreshesCall p (Some out) None)
            \<and> (\<forall>s''. polled (DescribeInstanceRefreshesCall p (Some out) None) = Some s''
                    \<longrightarrow> Status s'' \<notin> TerminalStatusSet)"
    by (simp add: timeout_format_def)
qed

theorem terminal_status_precedes_timeout_witness:
  "DescribeRefresh (newTestRefresher (mockASClient start_ok (describe_status ''Successful'')))
      ''asg'' ''id'' world0 =
     (Return (Some (snap ''Successful''), None), emit (describe_event ''Successful'') world0)
   \<and> after_callback (Some count_callback) (Some (snap ''Successful''))
        (emit (describe_event ''Successful'') world0) =
       (Some (snap ''Successful''),
        world0\<lparr>trace := [describe_event ''Successful'', CallbackCall (snap ''Successful'')],
                caller := 1\<rparr>)
   \<and> Status (snap ''Successful'') \<in> TerminalStatusSet
   \<and> (0 :: int) \<le> fst (time_Since 0
        (world0\<lparr>trace := [describe_event ''Successful'', CallbackCall (snap ''Successful'')],
                caller := 1\<rparr>))
   \<and> wait_loop (newTestRefresher (mockASClient start_ok (describe_status ''Successful'')))
        ''asg'' ''id'' 1000000 0 (Some count_callback) 0 world0 =
       Some (Return (Some (snap ''Successful''), None),
             world0\<lparr>trace := [describe_event ''Successful'',
                               CallbackCall (snap ''Successful'')],
                     caller := 1\<rparr>)
   \<and> wait_loop (newTestRefresher (mockASClient start_ok (describe_status ''InProgress'')))
        ''asg'' ''id'' 1000000 0 (Some count_callback) 0 world0 =
       Some (Return (None,
               Some (Errorf ''timed out after %.0fs waiting for refresh %s''
                       [FloatSeconds 0, Str ''id''])),
             world0\<lparr>trace := [describe_event ''InProgress'',
                               CallbackCall (snap ''InProgress''), ClockRead 0],
                     caller := 1\<rparr>)
   \<and> last_poll [describe_event ''InProgress'', CallbackCall (snap ''InProgress''),
                ClockRead 0] =
       Some (describe_event ''InProgress'')
   \<and> polled (describe_event ''InProgress'') = Some (snap ''InProgress'')
   \<and> Status (snap ''InProgress'') \<notin> TerminalStatusSet"
proof -
  let ?ok = "newTestRefresher (mockASClient start_ok (describe_status ''Successful''))"
  let ?ip = "newTestRefresher (mockASClient start_ok (describe_status ''InProgress''))"
  let ?w2 = "world0\<lparr>trace := [describe_event ''Successful'',
                              CallbackCall (snap ''Successful'')],
                    caller := 1\<rparr>"
  let ?w' = "world0\<lparr>trace := [describe_event ''InProgress'',
                              CallbackCall (snap ''InProgress''), ClockRead 0],
                    caller := 1\<rparr>"
  have h1: "DescribeRefresh ?ok ''asg'' ''id'' world0 =
     (Return (Some (snap ''Successful''), None), emit (describe_event ''Successful'') world0)"
    by (simp add: run_defs2)
  have h2: "after_callback (Some count_callback) (Some (snap ''Successful''))
        (emit (describe_event ''Successful'') world0) = (Some (snap ''Successful''), ?w2)"
    by (simp add: run_defs2)
  have h3: "Status (snap ''Successful'') \<in> TerminalStatusSet"
    by (simp add: run_defs2)
  have h4: "(0 :: int) \<le> fst (time_Since 0 ?w2)"
    by (simp add: run_defs2)
  have h5: "wait_loop ?ip ''asg'' ''id'' 1000000 0 (Some count_callback) 0 world0 =
       Some (Return (None,
               Some (Errorf ''timed out after %.0fs waiting for refresh %s''
                       [FloatSeconds 0, Str ''id''])), ?w')"
    by (simp add: run_defs2 wait_loop.simps)
  have keep: "\<forall>f s c. Some count_callback = Some f \<longrightarrow> Status (fst (f s c)) = Status s"
    by (simp add: count_callback_def)
  have h6: "last_poll [describe_event ''InProgress'', CallbackCall (snap ''InProgress''),
                       ClockRead 0] =
              Some (describe_event ''InProgress'')"
    by (simp add: last_poll_def describe_event_def)
  have h7: "polled (describe_event ''InProgress'') = Some (snap ''InProgress'')"
    by (simp add: describe_event_def)
  note t1 = terminal_status_precedes_timeout [of ?ok "''asg''" "''id''" world0
      "snap ''Successful''" "emit (describe_event ''Successful'') world0"
      "Some count_callback" "snap ''Successful''" ?w2 0 0 1000000]
  note t2 = terminal_status_precedes_timeout [of ?ip "''asg''" "''id''" world0
      _ _ "Some count_callback" _ _ 0 0 1000000 None "[FloatSeconds 0, Str ''id'']" ?w']
  have r1: "wait_loop ?ok ''asg'' ''id'' 1000000 0 (Some count_callback) 0 world0 =
       Some (Return (Some (snap ''Successful''), None), ?w2)"
    by (rule mp [OF conjunct1 [OF t1]]) (intro conjI h1 h2 h3 h4)
  have "\<exists>p out. last_poll (trace ?w') =
                      Some (DescribeInstanceRefreshesCall p (Some out) None)
            \<and> (\<forall>s''. polled (DescribeInstanceRefreshesCall p (Some out) None) = Some s''
                    \<longrightarrow> Status s'' \<notin> TerminalStatusSet)"
    by (rule mp [OF conjunct2 [OF t2]]) (intro conjI keep h5)
  then obtain p out where
    po: "last_poll (trace ?w') = Some (DescribeInstanceRefreshesCall p (Some out) None)"
      "\<forall>s''. polled (DescribeInstanceRefreshesCall p (Some out) None) = Some s''
            \<longrightarrow> Status s'' \<notin> TerminalStatusSet"
    by blast
  from po(1) h6 have eq:
    "DescribeInstanceRefreshesCall p (Some out) None = describe_event ''InProgress''"
    by simp
  have r2: "Status (snap ''InProgress'') \<notin> TerminalStatusSet"
    using po(2) h7 unfolding eq by blast
  show ?thesis
    by (intro conjI h1 h2 h3 h4 r1 h5 h6 h7 r2)
qed

text \<open>
  The claim as first stated fails when the callback writes to the snapshot: a poll returns
  the terminal status Failed, the callback writes InProgress, and with the timeout
  reached the Waiter returns the timeout error, after a last poll that observed a
  terminal snapshot.
\<close>

theorem terminal_status_precedes_timeout_counterexample:
  "WaitForRefresh
     (newTestRefresher (mockASClient start_ok (describe_status ''Failed'')))
     ''asg'' ''id'' 1000000 0 (Some (write_status ''InProgress'')) world0 =
     Some (Return (None,
             Some (Errorf ''timed out after %.0fs waiting for refresh %s''
                     [FloatSeconds 0, Str ''id''])),
           world0\<lparr>trace := [ClockRead 0, describe_event ''Failed'',
                             CallbackCall (snap ''Failed''), ClockRead 0],
                   caller := 1\<rparr>)
   \<and> last_poll [ClockRead 0, describe_event ''Failed'', CallbackCall (snap ''Failed''),
                ClockRead 0] =
       Some (describe_event ''Failed'')
   \<and> polled (describe_event ''Failed'') = Some (snap ''Failed'')
   \<and> Status (snap ''Failed'') \<in> TerminalStatusSet"
  by (simp add: run_defs2 wait_loop.simps last_poll_def)

end
